theory Spec2Isabelle
  imports Complex_Main "HOL-Library.Word"
begin

section \<open>The octasphere mesh generator\<close>

text \<open>
  A shallow embedding of \<^verbatim>\<open>generateOctasphere\<close> and of the private functions and
  classes it is built from (\<^verbatim>\<open>generateUnitSphere\<close>, \<^verbatim>\<open>writeGeodesic\<close>,
  \<^verbatim>\<open>applyScale\<close>, \<^verbatim>\<open>translateCorners\<close>, \<^verbatim>\<open>generateIndices\<close>, \<^verbatim>\<open>VertexArray\<close>,
  \<^verbatim>\<open>TriangleArray\<close> and the quaternion helpers).

  Conventions of the model:
  \<^item> A Kotlin \<^verbatim>\<open>Float\<close> is a \<^typ>\<open>real\<close>: arithmetic, \<^verbatim>\<open>sin\<close>, \<^verbatim>\<open>cos\<close> and \<^verbatim>\<open>acos\<close> are
    exact and \<^verbatim>\<open>FPI\<close> is \<^term>\<open>pi\<close>; rounding is not modelled. A real number has no
    infinity or NaN, so a floating-point division is a checked operation that yields
    \<open>DivisionByZero\<close> when the divisor is zero.
  \<^item> The argument \<^verbatim>\<open>subdivisions\<close> of the public function is an \<^typ>\<open>int\<close>. After the
    clamp every Kotlin \<^verbatim>\<open>Int\<close> of the generator is a count or an array position: it is
    a \<^typ>\<open>nat\<close>, \<^verbatim>\<open>1.shl(n)\<close> is \<open>2 ^ n\<close>, and an integer division by the literals 2
    and 3 is \<open>div\<close> (\<open>octasphere_counts_fit_Int\<close> below bounds every count far below
    \<open>2 ^ 31\<close>, and no subtraction of the source goes below zero, since
    \<open>verticesPerLine\<close> is at least 2).
  \<^item> An exception is a value: every function that can throw returns an
    \<open>error + 'a\<close>. Kotlin's \<^verbatim>\<open>assert\<close> throws only when the JVM runs with assertions
    enabled, which is a field of the platform the generator runs on.
  \<^item> A \<^verbatim>\<open>Float3\<close> is a mutable object in Kotlin. Every slot of a \<^verbatim>\<open>VertexArray\<close> is
    written with a freshly allocated vector, so no two slots alias and the in-place
    update of \<^verbatim>\<open>applyScale\<close> is a map over values.
\<close>

subsection \<open>Errors and loops\<close>

datatype assertion =
    PositionsFilled  \<comment> \<open>\<^verbatim>\<open>assert(positions.index == positions.data.size)\<close>\<close>
  | TrianglesFilled  \<comment> \<open>\<^verbatim>\<open>assert(triangles.index == triangles.data.size)\<close>\<close>
  | IndexFitsShort   \<comment> \<open>\<^verbatim>\<open>assert(i <= Short.MAX_VALUE)\<close>\<close>

datatype error =
    AssertionError assertion
  | ArrayIndexOutOfBounds
  | BufferOverflow
  | DivisionByZero

type_synonym 'a result = "error + 'a"

definition rbind :: "'a result \<Rightarrow> ('a \<Rightarrow> 'b result) \<Rightarrow> 'b result" where
  "rbind m f = (case m of Inl e \<Rightarrow> Inl e | Inr v \<Rightarrow> f v)"

text \<open>\<^verbatim>\<open>for (x in xs) body\<close>, the body updating a state and possibly throwing.\<close>

fun forEach :: "'a list \<Rightarrow> ('a \<Rightarrow> 's \<Rightarrow> 's result) \<Rightarrow> 's \<Rightarrow> 's result" where
  "forEach [] body s = Inr s"
| "forEach (v # vs) body s = rbind (body v s) (forEach vs body)"

datatype ByteOrder = BIG_ENDIAN | LITTLE_ENDIAN

record Platform =
  assertionsEnabled :: bool
  nativeOrder :: ByteOrder

definition kassert :: "Platform \<Rightarrow> assertion \<Rightarrow> bool \<Rightarrow> unit result" where
  "kassert P a b = (if assertionsEnabled P \<and> \<not> b then Inl (AssertionError a) else Inr ())"

definition fdiv :: "real \<Rightarrow> real \<Rightarrow> real result" where
  "fdiv a b = (if b = 0 then Inl DivisionByZero else Inr (a / b))"

subsection \<open>Vectors and quaternions\<close>

datatype Float3 = Float3 (vx: real) (vy: real) (vz: real)

datatype Float4 = Float4 (qx: real) (qy: real) (qz: real) (qw: real)

text \<open>
  Modelled from the spec: the vector library of the package (\<^verbatim>\<open>Float3\<close>, \<^verbatim>\<open>Float4\<close>,
  \<^verbatim>\<open>dot\<close>, \<^verbatim>\<open>cross\<close>, \<^verbatim>\<open>clamp\<close>, \<^verbatim>\<open>FPI\<close>) is not among the sources. These are the usual
  componentwise operations, the dot and cross products of the endpoints, and the clamp
  of a value to an interval.
\<close>

definition Float3_zero :: Float3 where
  "Float3_zero = Float3 0 0 0"

definition times3 :: "Float3 \<Rightarrow> real \<Rightarrow> Float3" where
  "times3 v s = Float3 (vx v * s) (vy v * s) (vz v * s)"

definition plus3 :: "Float3 \<Rightarrow> Float3 \<Rightarrow> Float3" where
  "plus3 a b = Float3 (vx a + vx b) (vy a + vy b) (vz a + vz b)"

definition dot :: "Float3 \<Rightarrow> Float3 \<Rightarrow> real" where
  "dot a b = vx a * vx b + vy a * vy b + vz a * vz b"

definition cross :: "Float3 \<Rightarrow> Float3 \<Rightarrow> Float3" where
  "cross a b = Float3 (vy a * vz b - vz a * vy b)
                      (vz a * vx b - vx a * vz b)
                      (vx a * vy b - vy a * vx b)"

definition Float4_of :: "Float3 \<Rightarrow> real \<Rightarrow> Float4" where
  "Float4_of v w = Float4 (vx v) (vy v) (vz v) w"

definition xyz :: "Float4 \<Rightarrow> Float3" where
  "xyz q = Float3 (qx q) (qy q) (qz q)"

definition clamp :: "'a::linorder \<Rightarrow> 'a \<Rightarrow> 'a \<Rightarrow> 'a" where
  "clamp v lo hi = (if v < lo then lo else if v > hi then hi else v)"

definition FPI :: real where
  "FPI = pi"

text \<open>
  The quaternion helpers are in the source. \<^verbatim>\<open>quaternionFromRotation\<close> scales the axis
  it is given by the sine of the half angle and does not normalise it.
\<close>

definition quaternionFromRotation :: "Float3 \<Rightarrow> real \<Rightarrow> Float4" where
  "quaternionFromRotation axis radians =
     Float4_of (times3 axis (sin (0.5 * radians))) (cos (0.5 * radians))"

definition quaternionRotateVector :: "Float4 \<Rightarrow> Float3 \<Rightarrow> Float3" where
  "quaternionRotateVector quaternion src =
     (let t = times3 (cross (xyz quaternion) src) 2.0;
          p = cross (xyz quaternion) t
      in plus3 (plus3 (times3 t (qw quaternion)) src) p)"

definition quaternionFromEulers :: "Float3 \<Rightarrow> Float4" where
  "quaternionFromEulers eulers =
     (let roll = vx eulers;
          pitch = vy eulers;
          yaw = vz eulers;
          halfRoll = roll * 0.5;
          sR = sin halfRoll;
          cR = cos halfRoll;
          halfPitch = pitch * 0.5;
          sP = sin halfPitch;
          cP = cos halfPitch;
          halfYaw = yaw * 0.5;
          sY = sin halfYaw;
          cY = cos halfYaw;
          x = (sR * cP * cY) + (cR * sP * sY);
          y = (cR * sP * cY) - (sR * cP * sY);
          z = (cR * cP * sY) + (sR * sP * cY);
          w = (cR * cP * cY) - (sR * sP * sY)
      in Float4 x y z w)"

subsection \<open>Arrays with a write cursor\<close>

text \<open>
  \<^verbatim>\<open>VertexArray\<close> and \<^verbatim>\<open>TriangleArray\<close> are both an array of fixed size together with
  the position of the next write; \<^verbatim>\<open>data[index++] = v\<close> throws when the cursor is past
  the end.
\<close>

record 'a WriteArray =
  data :: "'a list"
  index :: nat

type_synonym VertexArray = "Float3 WriteArray"
type_synonym TriangleArray = "nat WriteArray"

definition VertexArray :: "nat \<Rightarrow> VertexArray" where
  "VertexArray count = \<lparr>data = replicate count Float3_zero, index = 0\<rparr>"

definition TriangleArray :: "nat \<Rightarrow> TriangleArray" where
  "TriangleArray count = \<lparr>data = replicate (count * 3) 0, index = 0\<rparr>"

definition write1 :: "'a \<Rightarrow> 'a WriteArray \<Rightarrow> 'a WriteArray result" where
  "write1 v arr =
     (if index arr < length (data arr)
      then Inr (arr\<lparr>data := (data arr)[index arr := v], index := index arr + 1\<rparr>)
      else Inl ArrayIndexOutOfBounds)"

definition write3 :: "nat \<Rightarrow> nat \<Rightarrow> nat \<Rightarrow> TriangleArray \<Rightarrow> TriangleArray result" where
  "write3 a b c arr = rbind (write1 a arr) (\<lambda>arr. rbind (write1 b arr) (write1 c))"

definition get :: "'a WriteArray \<Rightarrow> nat \<Rightarrow> 'a result" where
  "get arr i = (if i < length (data arr) then Inr (data arr ! i) else Inl ArrayIndexOutOfBounds)"

subsection \<open>Byte buffers\<close>

text \<open>
  A byte of a buffer is a plain octet, or one of the four bytes of a \<^verbatim>\<open>Float\<close>: the model
  does not fix the bit pattern of a float, so \<open>FloatByte v k\<close> stands for byte \<open>k\<close> of
  the binary32 pattern of \<open>v\<close>, byte 0 being the least significant.
\<close>

datatype byte = Byte "8 word" | FloatByte real nat

record ByteBuffer =
  bytes :: "byte list"
  position :: nat
  byteOrder :: ByteOrder

text \<open>\<^verbatim>\<open>ByteBuffer.allocate\<close>: zero-filled, position 0, big-endian until ordered otherwise.\<close>

definition allocate :: "nat \<Rightarrow> ByteBuffer" where
  "allocate capacity = \<lparr>bytes = replicate capacity (Byte 0), position = 0, byteOrder = BIG_ENDIAN\<rparr>"

definition order :: "ByteOrder \<Rightarrow> ByteBuffer \<Rightarrow> ByteBuffer" where
  "order bo buf = buf\<lparr>byteOrder := bo\<rparr>"

definition putBytes :: "byte list \<Rightarrow> ByteBuffer \<Rightarrow> ByteBuffer result" where
  "putBytes bs buf =
     (if length bs \<le> length (bytes buf) - position buf
      then Inr (buf\<lparr>bytes := take (position buf) (bytes buf) @ bs
                            @ drop (position buf + length bs) (bytes buf),
                    position := position buf + length bs\<rparr>)
      else Inl BufferOverflow)"

definition shortBytes :: "ByteOrder \<Rightarrow> 16 word \<Rightarrow> byte list" where
  "shortBytes bo w =
     (case bo of BIG_ENDIAN \<Rightarrow> [Byte (ucast (drop_bit 8 w)), Byte (ucast w)]
               | LITTLE_ENDIAN \<Rightarrow> [Byte (ucast w), Byte (ucast (drop_bit 8 w))])"

definition floatBytes :: "ByteOrder \<Rightarrow> real \<Rightarrow> byte list" where
  "floatBytes bo v =
     (case bo of
        BIG_ENDIAN \<Rightarrow> [FloatByte v 3, FloatByte v 2, FloatByte v 1, FloatByte v 0]
      | LITTLE_ENDIAN \<Rightarrow> [FloatByte v 0, FloatByte v 1, FloatByte v 2, FloatByte v 3])"

definition putShort :: "16 word \<Rightarrow> ByteBuffer \<Rightarrow> ByteBuffer result" where
  "putShort w buf = putBytes (shortBytes (byteOrder buf) w) buf"

definition putFloat :: "real \<Rightarrow> ByteBuffer \<Rightarrow> ByteBuffer result" where
  "putFloat v buf = putBytes (floatBytes (byteOrder buf) v) buf"

definition toShort :: "nat \<Rightarrow> 16 word" where
  "toShort i = word_of_nat i"

subsection \<open>Constants\<close>

definition kFloatSize :: nat where
  "kFloatSize = 4"

definition kOctasphereMaxSubdivisions :: nat where
  "kOctasphereMaxSubdivisions = 5"

definition kOctaspherePositionSize :: nat where
  "kOctaspherePositionSize = 3 * kFloatSize"

definition kOctasphereTangentSize :: nat where
  "kOctasphereTangentSize = 4 * kFloatSize"

definition kOctasphereIndexSize :: nat where
  "kOctasphereIndexSize = 2"

definition Short_MAX_VALUE :: nat where
  "Short_MAX_VALUE = 32767"

subsection \<open>Serialising the arrays\<close>

definition VertexArray_toBuffer :: "Platform \<Rightarrow> VertexArray \<Rightarrow> ByteBuffer result" where
  "VertexArray_toBuffer P arr =
     (let buf = order (nativeOrder P) (allocate (length (data arr) * kOctaspherePositionSize))
      in forEach (data arr)
           (\<lambda>v buf. rbind (putFloat (vx v) buf) (\<lambda>buf.
                     rbind (putFloat (vy v) buf) (\<lambda>buf.
                     putFloat (vz v) buf)))
           buf)"

definition TriangleArray_toBuffer :: "Platform \<Rightarrow> TriangleArray \<Rightarrow> ByteBuffer result" where
  "TriangleArray_toBuffer P arr =
     (let buf = order (nativeOrder P) (allocate (length (data arr) * kOctasphereIndexSize))
      in forEach (data arr)
           (\<lambda>i buf. rbind (kassert P IndexFitsShort (i \<le> Short_MAX_VALUE)) (\<lambda>_.
                     putShort (toShort i) buf))
           buf)"

subsection \<open>The unit sphere\<close>

definition writeGeodesic :: "VertexArray \<Rightarrow> Float3 \<Rightarrow> Float3 \<Rightarrow> nat \<Rightarrow> VertexArray result" where
  "writeGeodesic positions pointA pointB numSegments =
     rbind (write1 pointA positions) (\<lambda>positions.
     if numSegments = 0 then Inr positions
     else
       let angleBetweenEndpoints = arccos (dot pointA pointB) in
       rbind (fdiv angleBetweenEndpoints (real numSegments)) (\<lambda>delta.
       let axis = cross pointA pointB in
       rbind (forEach [1..<numSegments]
                (\<lambda>i positions.
                   let q = quaternionFromRotation axis (delta * real i);
                       v = quaternionRotateVector q pointA
                   in write1 v positions)
                positions) (\<lambda>positions.
       write1 pointB positions)))"

definition octants :: "Float3 list" where
  "octants =
     [Float3 0 0 0, Float3 0 1 0, Float3 0 2 0, Float3 0 3 0,
      Float3 1 0 0, Float3 1 0 1, Float3 1 0 2, Float3 1 0 3]"

definition generateUnitSphere :: "Platform \<Rightarrow> VertexArray \<Rightarrow> nat \<Rightarrow> VertexArray result" where
  "generateUnitSphere P positions subdivisions =
     (let divisions = clamp subdivisions 0 kOctasphereMaxSubdivisions;
          verticesPerLine = 2 ^ divisions + 1;
          verticesPerPatch = verticesPerLine * (verticesPerLine + 1) div 2
      in
      rbind (forEach [0..<verticesPerLine]
               (\<lambda>i positions.
                  rbind (fdiv (FPI * 0.5 * real i) (real (verticesPerLine - 1))) (\<lambda>theta.
                  let pointA = Float3 0 (sin theta) (cos theta);
                      pointB = Float3 (cos theta) (sin theta) 0;
                      numSegments = verticesPerLine - 1 - i
                  in writeGeodesic positions pointA pointB numSegments))
               positions) (\<lambda>positions.
      rbind (forEach [1..<8]
               (\<lambda>octant positions.
                  let eulerAngles = times3 (times3 (octants ! octant) 0.5) FPI;
                      quat = quaternionFromEulers eulerAngles
                  in forEach [0..<verticesPerPatch]
                       (\<lambda>i positions.
                          rbind (get positions i) (\<lambda>p.
                          let vert = quaternionRotateVector quat p
                          in write1 vert positions))
                       positions)
               positions) (\<lambda>positions.
      rbind (kassert P PositionsFilled (index positions = length (data positions))) (\<lambda>_.
      Inr positions))))"

subsection \<open>Scaling and translating\<close>

definition applyScale :: "VertexArray \<Rightarrow> real \<Rightarrow> VertexArray" where
  "applyScale positions scale =
     positions\<lparr>data := map (\<lambda>v. Float3 (vx v * scale) (vy v * scale) (vz v * scale))
                          (data positions)\<rparr>"

text \<open>
  \<^verbatim>\<open>translateCorners\<close> computes the three offsets and stops at a \<^verbatim>\<open>TODO\<close>: the loop that
  would move the vertices is commented out, so the array is returned as it came.
\<close>

definition translateCorners :: "VertexArray \<Rightarrow> Float3 \<Rightarrow> real \<Rightarrow> nat \<Rightarrow> VertexArray result" where
  "translateCorners positions dimensions radius subdivisions =
     (let r2 = radius * 2;
          width = max (vx dimensions) r2;
          height = max (vy dimensions) r2;
          depth = max (vz dimensions) r2
      in rbind (fdiv (width - r2) 2) (\<lambda>tx.
         rbind (fdiv (height - r2) 2) (\<lambda>ty.
         rbind (fdiv (depth - r2) 2) (\<lambda>tz.
         Inr positions))))"

subsection \<open>The triangles\<close>

definition generateIndices :: "Platform \<Rightarrow> TriangleArray \<Rightarrow> nat \<Rightarrow> TriangleArray result" where
  "generateIndices P triangles subdivisions =
     (let verticesPerLine = 2 ^ subdivisions + 1;
          verticesPerPatch = verticesPerLine * (verticesPerLine + 1) div 2;
          trianglesPerPatch = (verticesPerLine - 2) * (verticesPerLine - 1) + verticesPerLine - 1;
          indicesPerPatch = trianglesPerPatch * 3
      in
      rbind (forEach [0..<verticesPerLine - 1]
               (\<lambda>colIndex (j0, triangles).
                  let colHeight = verticesPerLine - 1 - colIndex;
                      j1 = j0 + 1;
                      j2 = j0 + colHeight + 1;
                      j3 = j0 + colHeight + 2
                  in
                  rbind (forEach [0..<colHeight - 1]
                           (\<lambda>row triangles.
                              rbind (write3 (j0 + row) (j1 + row) (j2 + row) triangles)
                                    (write3 (j2 + row) (j1 + row) (j3 + row)))
                           triangles) (\<lambda>triangles.
                  let row = colHeight - 1 in
                  rbind (write3 (j0 + row) (j1 + row) (j2 + row) triangles) (\<lambda>triangles.
                  Inr (j2, triangles))))
               (0, triangles)) (\<lambda>(j0, triangles).
      rbind (forEach [1..<8]
               (\<lambda>octant triangles.
                  let offset = verticesPerPatch * octant
                  in forEach [0..<indicesPerPatch]
                       (\<lambda>i triangles.
                          rbind (get triangles i) (\<lambda>a. write1 (a + offset) triangles))
                       triangles)
               triangles) (\<lambda>triangles.
      rbind (kassert P TrianglesFilled (index triangles = length (data triangles))) (\<lambda>_.
      Inr triangles))))"

subsection \<open>The generator\<close>

record OctasphereMesh =
  numVertices :: nat
  numIndices :: nat
  positions :: ByteBuffer
  tangents :: ByteBuffer
  indices :: ByteBuffer

text \<open>
  The vertex array as \<^verbatim>\<open>generateOctasphere\<close> has it when it serialises the positions:
  the unit sphere, scaled and handed to \<^verbatim>\<open>translateCorners\<close>. The buffer of normals is
  serialised in between (and then not used).
\<close>

definition octaspherePositions ::
  "Platform \<Rightarrow> Float3 \<Rightarrow> real \<Rightarrow> nat \<Rightarrow> nat \<Rightarrow> VertexArray result" where
  "octaspherePositions P dimensions radius actualSubdivisions totalVertices =
     (let positions = VertexArray totalVertices in
      rbind (generateUnitSphere P positions actualSubdivisions) (\<lambda>positions.
      rbind (VertexArray_toBuffer P positions) (\<lambda>normalsBuffer.
      let positions = applyScale positions radius in
      translateCorners positions dimensions radius actualSubdivisions)))"

definition generateOctasphere ::
  "Platform \<Rightarrow> Float3 \<Rightarrow> real \<Rightarrow> int \<Rightarrow> OctasphereMesh result" where
  "generateOctasphere P dimensions radius subdivisions =
     (let actualSubdivisions = nat (clamp subdivisions 0 (int kOctasphereMaxSubdivisions));
          verticesPerLine = 2 ^ actualSubdivisions + 1;
          verticesPerPatch = verticesPerLine * (verticesPerLine + 1) div 2;
          trianglesPerPatch = (verticesPerLine - 2) * (verticesPerLine - 1) + verticesPerLine - 1;
          totalVertices = verticesPerPatch * 8;
          numConnectionQuads = (4 + 4 + 4) * (verticesPerLine - 1) + 6;
          totalIndices = (trianglesPerPatch * 8 + numConnectionQuads * 2) * 3
      in
      rbind (octaspherePositions P dimensions radius actualSubdivisions totalVertices)
        (\<lambda>positions.
      rbind (VertexArray_toBuffer P positions) (\<lambda>positionsBuffer.
      let triangles = TriangleArray (totalIndices div 3) in
      rbind (generateIndices P triangles actualSubdivisions) (\<lambda>triangles.
      let tangents = order (nativeOrder P) (allocate (totalVertices * kOctasphereTangentSize))
      in
      rbind (TriangleArray_toBuffer P triangles) (\<lambda>indexBuffer.
      Inr \<lparr>numVertices = totalVertices, numIndices = totalIndices,
           positions = positionsBuffer, tangents = tangents, indices = indexBuffer\<rparr>)))))"

subsection \<open>What the loops write\<close>

text \<open>
  The functions of this section are not in the source. They describe, as plain lists, the
  values that the loops of the generator write, and the lemmas below prove that the loops
  write exactly these: \<open>appendAll\<close> is a run of writes at the cursor; \<open>patchIndices\<close>
  is what the column loop of \<^verbatim>\<open>generateIndices\<close> writes (\<open>patchEnd\<close> being its final
  \<open>j0\<close>) and \<open>octasphereIndices\<close> what the whole function writes; \<open>geodesicPoints\<close>
  is what \<^verbatim>\<open>writeGeodesic\<close> writes and \<open>unitSphereVertices\<close> what
  \<^verbatim>\<open>generateUnitSphere\<close> writes; \<open>octasphereMesh\<close> is the mesh that
  \<^verbatim>\<open>generateOctasphere\<close> returns when it returns.
\<close>

definition appendAll :: "'a list \<Rightarrow> 'a WriteArray \<Rightarrow> 'a WriteArray result" where
  "appendAll vs arr =
     (if length vs \<le> length (data arr) - index arr
      then Inr (arr\<lparr>data := take (index arr) (data arr) @ vs
                            @ drop (index arr + length vs) (data arr),
                    index := index arr + length vs\<rparr>)
      else Inl ArrayIndexOutOfBounds)"

definition columnIndices :: "nat \<Rightarrow> nat \<Rightarrow> nat list" where
  "columnIndices j0 colHeight =
     concat (map (\<lambda>row. [j0 + row, j0 + 1 + row, j0 + colHeight + 1 + row,
                          j0 + colHeight + 1 + row, j0 + 1 + row, j0 + colHeight + 2 + row])
               [0..<colHeight - 1])
     @ [j0 + (colHeight - 1), j0 + 1 + (colHeight - 1), j0 + colHeight + 1 + (colHeight - 1)]"

fun patchIndices :: "nat \<Rightarrow> nat \<Rightarrow> nat list \<Rightarrow> nat list" where
  "patchIndices verticesPerLine j0 [] = []"
| "patchIndices verticesPerLine j0 (colIndex # cols) =
     columnIndices j0 (verticesPerLine - 1 - colIndex)
     @ patchIndices verticesPerLine (j0 + (verticesPerLine - 1 - colIndex) + 1) cols"

fun patchEnd :: "nat \<Rightarrow> nat \<Rightarrow> nat list \<Rightarrow> nat" where
  "patchEnd verticesPerLine j0 [] = j0"
| "patchEnd verticesPerLine j0 (colIndex # cols) =
     patchEnd verticesPerLine (j0 + (verticesPerLine - 1 - colIndex) + 1) cols"

definition triangular :: "nat \<Rightarrow> nat" where
  "triangular n = n * (n + 1) div 2"

definition firstPatchIndices :: "nat \<Rightarrow> nat list" where
  "firstPatchIndices subdivisions =
     (let verticesPerLine = 2 ^ subdivisions + 1
      in patchIndices verticesPerLine 0 [0..<verticesPerLine - 1])"

definition octasphereIndices :: "nat \<Rightarrow> nat list" where
  "octasphereIndices subdivisions =
     (let verticesPerLine = 2 ^ subdivisions + 1;
          verticesPerPatch = verticesPerLine * (verticesPerLine + 1) div 2
      in firstPatchIndices subdivisions
         @ concat (map (\<lambda>octant. map (\<lambda>a. a + verticesPerPatch * octant)
                                     (firstPatchIndices subdivisions)) [1..<8]))"

definition vertexBytes :: "ByteOrder \<Rightarrow> Float3 \<Rightarrow> byte list" where
  "vertexBytes bo v = floatBytes bo (vx v) @ floatBytes bo (vy v) @ floatBytes bo (vz v)"

definition geodesicPoints :: "Float3 \<Rightarrow> Float3 \<Rightarrow> nat \<Rightarrow> Float3 list" where
  "geodesicPoints pointA pointB numSegments =
     pointA #
     (if numSegments = 0 then []
      else map (\<lambda>i. quaternionRotateVector
                       (quaternionFromRotation (cross pointA pointB)
                          (arccos (dot pointA pointB) / real numSegments * real i))
                       pointA)
               [1..<numSegments]
           @ [pointB])"

definition firstPatchVertices :: "nat \<Rightarrow> Float3 list" where
  "firstPatchVertices subdivisions =
     (let divisions = clamp subdivisions 0 kOctasphereMaxSubdivisions;
          verticesPerLine = 2 ^ divisions + 1
      in concat (map (\<lambda>i.
           let theta = FPI * 0.5 * real i / real (verticesPerLine - 1)
           in geodesicPoints (Float3 0 (sin theta) (cos theta)) (Float3 (cos theta) (sin theta) 0)
                (verticesPerLine - 1 - i))
           [0..<verticesPerLine]))"

definition octantQuaternion :: "nat \<Rightarrow> Float4" where
  "octantQuaternion octant = quaternionFromEulers (times3 (times3 (octants ! octant) 0.5) FPI)"

definition unitSphereVertices :: "nat \<Rightarrow> Float3 list" where
  "unitSphereVertices subdivisions =
     firstPatchVertices subdivisions
     @ concat (map (\<lambda>octant. map (quaternionRotateVector (octantQuaternion octant))
                                 (firstPatchVertices subdivisions)) [1..<8])"

definition effectiveSubdivisions :: "int \<Rightarrow> nat" where
  "effectiveSubdivisions subdivisions = nat (clamp subdivisions 0 (int kOctasphereMaxSubdivisions))"

definition scaledVertices :: "real \<Rightarrow> nat \<Rightarrow> Float3 list" where
  "scaledVertices radius subdivisions =
     map (\<lambda>v. Float3 (vx v * radius) (vy v * radius) (vz v * radius))
         (unitSphereVertices subdivisions)"

definition seamSlots :: "nat \<Rightarrow> nat" where
  "seamSlots subdivisions = ((4 + 4 + 4) * (2 ^ subdivisions + 1 - 1) + 6) * 2 * 3"

definition triangleData :: "nat \<Rightarrow> nat list" where
  "triangleData subdivisions =
     octasphereIndices subdivisions @ replicate (seamSlots subdivisions) 0"

definition octasphereMesh :: "Platform \<Rightarrow> real \<Rightarrow> nat \<Rightarrow> OctasphereMesh" where
  "octasphereMesh P radius d =
     \<lparr>numVertices = triangular (2 ^ d + 1) * 8,
      numIndices = length (octasphereIndices d) + seamSlots d,
      positions = \<lparr>bytes = concat (map (vertexBytes (nativeOrder P)) (scaledVertices radius d)),
                   position = triangular (2 ^ d + 1) * 8 * 12, byteOrder = nativeOrder P\<rparr>,
      tangents = \<lparr>bytes = replicate (triangular (2 ^ d + 1) * 8 * 16) (Byte 0),
                  position = 0, byteOrder = nativeOrder P\<rparr>,
      indices = \<lparr>bytes = concat (map (\<lambda>i. shortBytes (nativeOrder P) (toShort i)) (triangleData d)),
                 position = (length (octasphereIndices d) + seamSlots d) * 2,
                 byteOrder = nativeOrder P\<rparr>\<rparr>"

subsection \<open>The derived counts\<close>

text \<open>
  The counts that \<^verbatim>\<open>generateOctasphere\<close>, \<^verbatim>\<open>generateUnitSphere\<close> and
  \<^verbatim>\<open>generateIndices\<close> each recompute from the subdivision level, as functions of the
  level.
\<close>

definition verticesPerLine :: "nat \<Rightarrow> nat" where
  "verticesPerLine level = 2 ^ level + 1"

definition verticesPerPatch :: "nat \<Rightarrow> nat" where
  "verticesPerPatch level = verticesPerLine level * (verticesPerLine level + 1) div 2"

definition trianglesPerPatch :: "nat \<Rightarrow> nat" where
  "trianglesPerPatch level =
     (verticesPerLine level - 2) * (verticesPerLine level - 1) + verticesPerLine level - 1"

definition numConnectionQuads :: "nat \<Rightarrow> nat" where
  "numConnectionQuads level = (4 + 4 + 4) * (verticesPerLine level - 1) + 6"

subsection \<open>Concrete inputs\<close>

text \<open>
  A JVM on a little-endian host, with assertions enabled or not. Assertions are disabled
  unless the JVM is started with \<^verbatim>\<open>-ea\<close>.
\<close>

definition jvm :: "bool \<Rightarrow> Platform" where
  "jvm ea = \<lparr>assertionsEnabled = ea, nativeOrder = LITTLE_ENDIAN\<rparr>"

text \<open>
  At subdivision level 2 the third geodesic (\<open>i = 2\<close>, \<open>theta = pi / 4\<close>) runs from
  \<open>arcA\<close> to \<open>arcB\<close> in two segments; \<open>arcInner\<close> is the point that \<^verbatim>\<open>writeGeodesic\<close>
  computes between them.
\<close>

definition arcA :: Float3 where "arcA = Float3 0 (sqrt 2 / 2) (sqrt 2 / 2)"
definition arcB :: Float3 where "arcB = Float3 (sqrt 2 / 2) (sqrt 2 / 2) 0"

definition arcInner :: Float3 where
  "arcInner = Float3 (sqrt 2 / 4) (sqrt 2 / 4 + 3 * sqrt 6 / 16) (3 * sqrt 6 / 16)"

section \<open>The loops as appends\<close>

lemma rbind_Inr [simp]: "rbind (Inr v) f = f v"
  by (simp add: rbind_def)

lemma rbind_Inl [simp]: "rbind (Inl e) f = Inl e"
  by (simp add: rbind_def)

lemma rbind_Inr_right [simp]: "rbind m Inr = m"
  by (cases m) simp_all

lemma rbind_assoc: "rbind (rbind m f) g = rbind m (\<lambda>v. rbind (f v) g)"
  by (cases m) simp_all

lemma appendAll_Nil [simp]: "appendAll [] arr = Inr arr"
  by (simp add: appendAll_def)

lemma write1_appendAll: "write1 v = appendAll [v]"
  by (rule ext) (auto simp: write1_def appendAll_def upd_conv_take_nth_drop)

lemma appendAll_appendAll:
  "rbind (appendAll xs arr) (appendAll ys) = appendAll (xs @ ys) arr"
  by (auto simp: appendAll_def min_def ac_simps)

lemma forEach_appendAll:
  "(\<And>v s. v \<in> set vs \<Longrightarrow> body v s = appendAll (g v) s) \<Longrightarrow>
   forEach vs body s = appendAll (concat (map g vs)) s"
proof (induction vs arbitrary: s)
  case Nil
  show ?case by simp
next
  case (Cons v vs)
  have "forEach (v # vs) body s = rbind (appendAll (g v) s) (forEach vs body)"
    using Cons.prems [of v s] by simp
  also have "\<dots> = rbind (appendAll (g v) s) (appendAll (concat (map g vs)))"
    using Cons by (cases "appendAll (g v) s") simp_all
  finally show ?case by (simp add: appendAll_appendAll)
qed

lemma get_below: "i < length (data arr) \<Longrightarrow> get arr i = Inr (data arr ! i)"
  by (simp add: get_def)

lemma appendAll_Inr_iff:
  "appendAll vs arr = Inr arr' \<longleftrightarrow>
     length vs \<le> length (data arr) - index arr \<and>
     arr' = arr\<lparr>data := take (index arr) (data arr) @ vs
                            @ drop (index arr + length vs) (data arr),
                 index := index arr + length vs\<rparr>"
  by (auto simp: appendAll_def)

lemma appendAll_fails:
  "appendAll vs arr = Inl e \<Longrightarrow> e = ArrayIndexOutOfBounds \<and> length (data arr) - index arr < length vs"
  by (auto simp: appendAll_def split: if_splits)

lemma copy_loop_appendAll:
  "index arr \<le> length (data arr) \<Longrightarrow> (\<And>i. i \<in> set js \<Longrightarrow> i < index arr) \<Longrightarrow>
   forEach js (\<lambda>i s. rbind (get s i) (\<lambda>a. write1 (f a) s)) arr
     = appendAll (map (\<lambda>i. f (data arr ! i)) js) arr"
proof (induction js arbitrary: arr)
  case Nil
  show ?case by simp
next
  case (Cons j js)
  let ?body = "\<lambda>i s. rbind (get s i) (\<lambda>a. write1 (f a) s)"
  have j: "j < index arr" using Cons.prems(2) by simp
  then have g: "get arr j = Inr (data arr ! j)"
    using Cons.prems(1) by (simp add: get_below)
  have step: "forEach (j # js) ?body arr
      = rbind (appendAll [f (data arr ! j)] arr) (forEach js ?body)"
    by (simp add: g write1_appendAll)
  show ?case
  proof (cases "appendAll [f (data arr ! j)] arr")
    case (Inl e)
    then have "length (data arr) - index arr < 1"
      using appendAll_fails [OF Inl] by simp
    then have "appendAll (map (\<lambda>i. f (data arr ! i)) (j # js)) arr = Inl ArrayIndexOutOfBounds"
      by (simp add: appendAll_def)
    moreover have "e = ArrayIndexOutOfBounds" using appendAll_fails [OF Inl] by simp
    ultimately show ?thesis using step Inl by simp
  next
    case (Inr arr')
    then have fits: "1 \<le> length (data arr) - index arr"
      and arr': "arr' = arr\<lparr>data := take (index arr) (data arr) @ [f (data arr ! j)]
                            @ drop (index arr + 1) (data arr),
                 index := index arr + 1\<rparr>"
      by (simp_all add: appendAll_Inr_iff)
    have wf: "index arr' \<le> length (data arr')" using fits arr' by simp
    have below: "\<And>i. i \<in> set js \<Longrightarrow> i < index arr'"
      using Cons.prems(2) arr' by fastforce
    have same: "\<And>i. i \<in> set js \<Longrightarrow> data arr' ! i = data arr ! i"
      using Cons.prems(2) Cons.prems(1) arr' by (simp add: nth_append)
    have "forEach js ?body arr' = appendAll (map (\<lambda>i. f (data arr' ! i)) js) arr'"
      using Cons.IH [OF wf below] by simp
    also have "map (\<lambda>i. f (data arr' ! i)) js = map (\<lambda>i. f (data arr ! i)) js"
      using same by simp
    finally have "forEach (j # js) ?body arr
        = rbind (appendAll [f (data arr ! j)] arr) (appendAll (map (\<lambda>i. f (data arr ! i)) js))"
      using step Inr by simp
    then show ?thesis by (simp add: appendAll_appendAll)
  qed
qed

lemma appendAll_appendAll_bind:
  "rbind (appendAll xs arr) (\<lambda>a. rbind (appendAll ys a) f) = rbind (appendAll (xs @ ys) arr) f"
  by (simp only: rbind_assoc [symmetric] appendAll_appendAll)

lemma forEach_appendAll_fun:
  "forEach vs (\<lambda>v. appendAll (g v)) s = appendAll (concat (map g vs)) s"
  by (rule forEach_appendAll) simp

lemma write3_appendAll: "write3 a b c = appendAll [a, b, c]"
  by (rule ext) (simp add: write3_def write1_appendAll appendAll_appendAll_bind appendAll_appendAll)

lemma column_loop:
  fixes verticesPerLine :: nat
  defines "body \<equiv> (\<lambda>colIndex (j0, triangles).
                  let colHeight = verticesPerLine - 1 - colIndex;
                      j1 = j0 + 1;
                      j2 = j0 + colHeight + 1;
                      j3 = j0 + colHeight + 2
                  in
                  rbind (forEach [0..<colHeight - 1]
                           (\<lambda>row triangles.
                              rbind (write3 (j0 + row) (j1 + row) (j2 + row) triangles)
                                    (write3 (j2 + row) (j1 + row) (j3 + row)))
                           triangles) (\<lambda>triangles.
                  let row = colHeight - 1 in
                  rbind (write3 (j0 + row) (j1 + row) (j2 + row) triangles) (\<lambda>triangles.
                  Inr (j2, triangles))))"
  shows "forEach cols body (j0, triangles)
           = rbind (appendAll (patchIndices verticesPerLine j0 cols) triangles)
                   (\<lambda>triangles. Inr (patchEnd verticesPerLine j0 cols, triangles))"
proof (induction cols arbitrary: j0 triangles)
  case Nil
  show ?case by simp
next
  case (Cons c cols)
  define h where "h = verticesPerLine - 1 - c"
  have "body c (j0, triangles)
      = rbind (appendAll (columnIndices j0 h) triangles) (\<lambda>t. Inr (j0 + h + 1, t))"
    unfolding body_def Let_def prod.case h_def [symmetric] columnIndices_def
    by (simp add: write3_appendAll appendAll_appendAll forEach_appendAll_fun
          appendAll_appendAll_bind)
  then have "forEach (c # cols) body (j0, triangles)
      = rbind (appendAll (columnIndices j0 h) triangles)
          (\<lambda>t. forEach cols body (j0 + h + 1, t))"
    by (simp add: rbind_assoc)
  also have "\<dots> = rbind (appendAll (columnIndices j0 h) triangles)
          (\<lambda>t. rbind (appendAll (patchIndices verticesPerLine (j0 + h + 1) cols) t)
                   (\<lambda>t. Inr (patchEnd verticesPerLine (j0 + h + 1) cols, t)))"
    by (simp only: Cons.IH)
  also have "\<dots> = rbind (appendAll (columnIndices j0 h @ patchIndices verticesPerLine (j0 + h + 1) cols) triangles)
                   (\<lambda>t. Inr (patchEnd verticesPerLine (j0 + h + 1) cols, t))"
    by (simp only: rbind_assoc [symmetric] appendAll_appendAll)
  finally show ?case by (simp add: h_def)
qed

lemmas column_loop_unfolded = column_loop [unfolded Let_def]

lemma length_columnIndices: "length (columnIndices j0 h) = 6 * (h - 1) + 3"
  by (simp add: columnIndices_def length_concat comp_def sum_list_triv)

lemma set_columnIndices_bound:
  assumes "a \<in> set (columnIndices j0 h)" and "0 < h"
  shows "a \<le> j0 + 2 * h"
  using assms by (auto simp: columnIndices_def)

lemma triangular_Suc: "triangular (Suc n) = triangular n + n + 1"
proof -
  have "Suc n * (Suc n + 1) = n * (n + 1) + 2 * (n + 1)" by simp
  then show ?thesis unfolding triangular_def by (metis add.assoc div_mult_self4 mult.commute zero_neq_numeral add.commute)
qed

lemma length_patchIndices:
  "c \<le> m \<Longrightarrow> length (patchIndices (Suc m) j0 [c..<m]) = 3 * (m - c) ^ 2"
proof (induction "m - c" arbitrary: c j0)
  case 0
  then show ?case by simp
next
  case (Suc k)
  then have lt: "c < m" and k: "m - Suc c = k" and h: "m - c = Suc k" by simp_all
  have "length (patchIndices (Suc m) j0 [c..<m])
      = length (columnIndices j0 (m - c)) + length (patchIndices (Suc m) (j0 + (m - c) + 1) [Suc c..<m])"
    using lt by (simp add: upt_conv_Cons)
  also have "\<dots> = 6 * k + 3 + 3 * k ^ 2"
    using Suc.hyps(1) [of "Suc c"] lt k h by (simp add: length_columnIndices)
  also have "\<dots> = 3 * (Suc k) ^ 2" by (simp add: power2_eq_square)
  finally show ?case using h by simp
qed

lemma patchIndices_bound:
  "c \<le> m \<Longrightarrow> a \<in> set (patchIndices (Suc m) j0 [c..<m]) \<Longrightarrow> a < j0 + triangular (m - c + 1)"
proof (induction "m - c" arbitrary: c j0)
  case 0
  then show ?case by simp
next
  case (Suc k)
  then have lt: "c < m" and k: "m - Suc c = k" and h: "m - c = Suc k" by simp_all
  have tri: "triangular (Suc k + 1) = triangular k + 2 * k + 3"
    by (simp add: triangular_Suc)
  from Suc.prems(2) lt
  consider (col) "a \<in> set (columnIndices j0 (m - c))"
    | (rest) "a \<in> set (patchIndices (Suc m) (j0 + (m - c) + 1) [Suc c..<m])"
    by (auto simp: upt_conv_Cons)
  then show ?case
  proof cases
    case col
    then have "a \<le> j0 + 2 * Suc k" using set_columnIndices_bound [of a j0 "Suc k"] h by simp
    then show ?thesis using h tri by simp
  next
    case rest
    have "a < j0 + (m - c) + 1 + triangular (m - Suc c + 1)"
      using Suc.hyps(1) [of "Suc c" "j0 + (m - c) + 1"] rest lt k by simp
    then show ?thesis using h k tri by (simp add: triangular_Suc)
  qed
qed

lemma trianglesPerPatch_eq:
  "(2 ^ n + 1 - 2) * (2 ^ n + 1 - 1) + (2 ^ n + 1) - 1 = ((2::nat) ^ n) ^ 2"
proof -
  obtain k where k: "(2::nat) ^ n = Suc k"
    by (metis not0_implies_Suc power_not_zero zero_neq_numeral)
  show ?thesis unfolding k by (simp add: power2_eq_square)
qed

lemma length_firstPatchIndices:
  "length (firstPatchIndices n) = 3 * (2 ^ n) ^ 2"
  using length_patchIndices [of 0 "2 ^ n" 0] by (simp add: firstPatchIndices_def)

lemma firstPatchIndices_bound:
  "a \<in> set (firstPatchIndices n) \<Longrightarrow> a < triangular (2 ^ n + 1)"
  using patchIndices_bound [of 0 "2 ^ n" a 0] by (simp add: firstPatchIndices_def)

lemma length_octasphereIndices:
  "length (octasphereIndices n) = 24 * (2 ^ n) ^ 2"
  by (simp add: octasphereIndices_def Let_def length_concat comp_def sum_list_triv
      length_firstPatchIndices)

lemma upt_1_8: "[1..<8] = [1, 2, 3, 4, 5, 6, 7::nat]"
  by (simp add: upt_rec [of _ 8] upt_rec [of _ 7] upt_rec [of _ 6] upt_rec [of _ 5]
      upt_rec [of _ 4] upt_rec [of _ 3] upt_rec [of _ 2])

lemma octasphereIndices_bound:
  assumes "a \<in> set (octasphereIndices n)"
  shows "a < 8 * triangular (2 ^ n + 1)"
proof -
  from assms consider (first) "a \<in> set (firstPatchIndices n)"
    | (copy) b octant where "b \<in> set (firstPatchIndices n)" "octant < 8"
        "a = b + triangular (2 ^ n + 1) * octant"
    by (auto simp: octasphereIndices_def Let_def triangular_def)
  then show ?thesis
  proof cases
    case first
    then show ?thesis using firstPatchIndices_bound [of a n] by simp
  next
    case copy
    have "b < triangular (2 ^ n + 1)" using copy(1) by (rule firstPatchIndices_bound)
    moreover have "triangular (2 ^ n + 1) * octant \<le> triangular (2 ^ n + 1) * 7"
      using copy(2) by simp
    ultimately have "b + triangular (2 ^ n + 1) * octant < triangular (2 ^ n + 1) + triangular (2 ^ n + 1) * 7"
      by (rule add_less_le_mono)
    then show ?thesis using copy(3) by simp
  qed
qed

lemma take_map_nth: "n \<le> length xs \<Longrightarrow> map (\<lambda>i. f (xs ! i)) [0..<n] = map f (take n xs)"
  by (simp add: list_eq_iff_nth_eq)

lemma octant_loop:
  assumes "take n (data arr) = patch" and "n \<le> index arr" and "index arr \<le> length (data arr)"
  shows "forEach octs
           (\<lambda>octant s. forEach [0..<n] (\<lambda>i s. rbind (get s i) (\<lambda>a. write1 (f octant a) s)) s)
           arr
         = appendAll (concat (map (\<lambda>octant. map (f octant) patch) octs)) arr"
  using assms
proof (induction octs arbitrary: arr)
  case Nil
  show ?case by simp
next
  case (Cons octant octs)
  let ?copy = "\<lambda>octant s. forEach [0..<n] (\<lambda>i s. rbind (get s i) (\<lambda>a. write1 (f octant a) s)) s"
  have "?copy octant arr = appendAll (map (\<lambda>i. f octant (data arr ! i)) [0..<n]) arr"
    using Cons.prems by (intro copy_loop_appendAll) auto
  also have "map (\<lambda>i. f octant (data arr ! i)) [0..<n] = map (f octant) patch"
    using Cons.prems by (simp add: take_map_nth)
  finally have step: "forEach (octant # octs) ?copy arr
      = rbind (appendAll (map (f octant) patch) arr) (forEach octs ?copy)"
    by simp
  show ?case
  proof (cases "appendAll (map (f octant) patch) arr")
    case (Inl e)
    then have e: "e = ArrayIndexOutOfBounds"
      and "length (data arr) - index arr < length (map (f octant) patch)"
      using appendAll_fails [OF Inl] by simp_all
    then have "appendAll (concat (map (\<lambda>octant. map (f octant) patch) (octant # octs))) arr
        = Inl ArrayIndexOutOfBounds"
      by (simp add: appendAll_def)
    then show ?thesis using step Inl e by simp
  next
    case (Inr arr')
    then have fits: "length patch \<le> length (data arr) - index arr"
      and arr': "arr' = arr\<lparr>data := take (index arr) (data arr) @ map (f octant) patch
                            @ drop (index arr + length patch) (data arr),
                 index := index arr + length patch\<rparr>"
      by (simp_all add: appendAll_Inr_iff)
    have 1: "take n (data arr') = patch"
      using Cons.prems arr' by simp
    have 2: "n \<le> index arr'" using Cons.prems arr' by simp
    have 3: "index arr' \<le> length (data arr')" using Cons.prems fits arr' by simp
    have "forEach (octant # octs) ?copy arr
        = rbind (appendAll (map (f octant) patch) arr)
                (appendAll (concat (map (\<lambda>octant. map (f octant) patch) octs)))"
      using step Inr Cons.IH [OF 1 2 3] by simp
    then show ?thesis by (simp add: appendAll_appendAll)
  qed
qed

lemma generateIndices_appendAll:
  assumes "index triangles = 0"
  shows "generateIndices P triangles n
       = rbind (appendAll (octasphereIndices n) triangles) (\<lambda>triangles.
         rbind (kassert P TrianglesFilled (index triangles = length (data triangles))) (\<lambda>_.
         Inr triangles))"
proof -
  let ?vpp = "(2 ^ n + 1) * (2 ^ n + 1 + 1) div 2 :: nat"
  let ?ipp = "((2 ^ n + 1 - 2) * (2 ^ n + 1 - 1) + (2 ^ n + 1) - 1) * 3 :: nat"
  let ?patch = "firstPatchIndices n"
  let ?copy = "\<lambda>octant s. forEach [0..<?ipp]
                 (\<lambda>i s. rbind (get s i) (\<lambda>a. write1 (a + ?vpp * octant) s)) s"
  let ?rest = "\<lambda>triangles.
         rbind (kassert P TrianglesFilled (index triangles = length (data triangles))) (\<lambda>_.
         Inr triangles)"
  have ipp: "?ipp = length ?patch"
    using trianglesPerPatch_eq [of n] by (simp only: length_firstPatchIndices mult.commute)
  have unfolded: "generateIndices P triangles n
      = rbind (appendAll ?patch triangles) (\<lambda>t. rbind (forEach [1..<8] ?copy t) ?rest)"
    unfolding generateIndices_def Let_def column_loop_unfolded firstPatchIndices_def
    by (simp add: rbind_assoc)
  show ?thesis
  proof (cases "appendAll ?patch triangles")
    case (Inl e)
    then have e: "e = ArrayIndexOutOfBounds"
      and "length (data triangles) - index triangles < length ?patch"
      using appendAll_fails [OF Inl] by simp_all
    then have "appendAll (octasphereIndices n) triangles = Inl ArrayIndexOutOfBounds"
      by (simp add: appendAll_def octasphereIndices_def Let_def)
    then show ?thesis using unfolded Inl e by simp
  next
    case (Inr t)
    then have fits: "length ?patch \<le> length (data triangles) - index triangles"
      and t: "t = triangles\<lparr>data := take (index triangles) (data triangles) @ ?patch
                            @ drop (index triangles + length ?patch) (data triangles),
                 index := index triangles + length ?patch\<rparr>"
      by (simp_all add: appendAll_Inr_iff)
    have 1: "take ?ipp (data t) = ?patch" unfolding ipp using t assms by simp
    have 2: "?ipp \<le> index t" unfolding ipp using t by simp
    have 3: "index t \<le> length (data t)" using t fits assms by simp
    have "forEach [1..<8] ?copy t
        = appendAll (concat (map (\<lambda>octant. map (\<lambda>a. a + ?vpp * octant) ?patch) [1..<8])) t"
      by (rule octant_loop [OF 1 2 3])
    then have "generateIndices P triangles n
      = rbind (rbind (appendAll ?patch triangles)
           (appendAll (concat (map (\<lambda>octant. map (\<lambda>a. a + ?vpp * octant) ?patch) [1..<8]))))
          ?rest"
      using unfolded Inr by simp
    then show ?thesis
      by (simp only: appendAll_appendAll octasphereIndices_def Let_def)
  qed
qed

lemma putBytes_Nil [simp]: "putBytes [] buf = Inr buf"
  by (simp add: putBytes_def)

lemma putBytes_then:
  "rbind (putBytes xs buf) (\<lambda>b. putBytes (g (byteOrder b)) b) = putBytes (xs @ g (byteOrder buf)) buf"
  by (auto simp: putBytes_def min_def ac_simps)

lemma forEach_putBytes:
  "(\<And>v b. v \<in> set vs \<Longrightarrow> body v b = putBytes (g (byteOrder b) v) b) \<Longrightarrow>
   forEach vs body buf = putBytes (concat (map (g (byteOrder buf)) vs)) buf"
proof (induction vs arbitrary: buf)
  case Nil
  show ?case by simp
next
  case (Cons v vs)
  have step: "forEach (v # vs) body buf = rbind (putBytes (g (byteOrder buf) v) buf) (forEach vs body)"
    using Cons.prems [of v buf] by simp
  have "rbind (putBytes (g (byteOrder buf) v) buf) (forEach vs body)
      = rbind (putBytes (g (byteOrder buf) v) buf)
          (\<lambda>b. putBytes (concat (map (g (byteOrder b)) vs)) b)"
  proof (cases "putBytes (g (byteOrder buf) v) buf")
    case (Inl e)
    then show ?thesis by simp
  next
    case (Inr b)
    then show ?thesis using Cons.IH [of b] Cons.prems by simp
  qed
  then show ?case
    using step by (simp add: putBytes_then [where g = "\<lambda>bo. concat (map (g bo) vs)"])
qed

lemma putBytes_exact:
  "putBytes bs (order bo (allocate (length bs)))
     = Inr \<lparr>bytes = bs, position = length bs, byteOrder = bo\<rparr>"
  by (simp add: putBytes_def order_def allocate_def)

lemma length_shortBytes [simp]: "length (shortBytes bo w) = 2"
  by (cases bo) (simp_all add: shortBytes_def)

lemma length_floatBytes [simp]: "length (floatBytes bo v) = 4"
  by (cases bo) (simp_all add: floatBytes_def)

lemma length_vertexBytes [simp]: "length (vertexBytes bo v) = 12"
  by (simp add: vertexBytes_def)

lemma length_concat_const:
  "(\<And>v. v \<in> set vs \<Longrightarrow> length (g v) = k) \<Longrightarrow> length (concat (map g vs)) = length vs * k"
  by (induction vs) simp_all

lemma putFloat3_putBytes:
  "rbind (putFloat a buf) (\<lambda>buf. rbind (putFloat b buf) (\<lambda>buf. putFloat c buf))
     = putBytes (floatBytes (byteOrder buf) a @ floatBytes (byteOrder buf) b
                 @ floatBytes (byteOrder buf) c) buf"
proof -
  have "rbind (putFloat b buf) (\<lambda>buf. putFloat c buf)
      = putBytes (floatBytes (byteOrder buf) b @ floatBytes (byteOrder buf) c) buf" for buf
    unfolding putFloat_def
    by (rule putBytes_then [where g = "\<lambda>bo. floatBytes bo c"])
  then show ?thesis
    unfolding putFloat_def
    by (simp add: putBytes_then [where g = "\<lambda>bo. floatBytes bo b @ floatBytes bo c"])
qed

lemma VertexArray_toBuffer_eq:
  "VertexArray_toBuffer P arr
     = Inr \<lparr>bytes = concat (map (vertexBytes (nativeOrder P)) (data arr)),
            position = length (data arr) * 12, byteOrder = nativeOrder P\<rparr>"
proof -
  let ?buf = "order (nativeOrder P) (allocate (length (data arr) * kOctaspherePositionSize))"
  let ?bs = "concat (map (vertexBytes (nativeOrder P)) (data arr))"
  have len: "length ?bs = length (data arr) * kOctaspherePositionSize"
    by (simp add: length_concat_const kOctaspherePositionSize_def kFloatSize_def)
  have "VertexArray_toBuffer P arr = putBytes (concat (map (vertexBytes (byteOrder ?buf)) (data arr))) ?buf"
    unfolding VertexArray_toBuffer_def Let_def
    by (rule forEach_putBytes) (simp add: putFloat3_putBytes vertexBytes_def)
  also have "\<dots> = putBytes ?bs (order (nativeOrder P) (allocate (length ?bs)))"
    by (simp add: len order_def)
  also have "\<dots> = Inr \<lparr>bytes = ?bs, position = length ?bs, byteOrder = nativeOrder P\<rparr>"
    by (rule putBytes_exact)
  finally show ?thesis
    by (simp add: len kOctaspherePositionSize_def kFloatSize_def)
qed

lemma TriangleArray_toBuffer_ok:
  assumes "assertionsEnabled P \<longrightarrow> (\<forall>i\<in>set (data arr). i \<le> Short_MAX_VALUE)"
  shows "TriangleArray_toBuffer P arr
     = Inr \<lparr>bytes = concat (map (\<lambda>i. shortBytes (nativeOrder P) (toShort i)) (data arr)),
            position = length (data arr) * 2, byteOrder = nativeOrder P\<rparr>"
proof -
  let ?buf = "order (nativeOrder P) (allocate (length (data arr) * kOctasphereIndexSize))"
  let ?bs = "concat (map (\<lambda>i. shortBytes (nativeOrder P) (toShort i)) (data arr))"
  have len: "length ?bs = length (data arr) * kOctasphereIndexSize"
    by (simp add: length_concat_const kOctasphereIndexSize_def)
  have "TriangleArray_toBuffer P arr
      = putBytes (concat (map (\<lambda>i. shortBytes (byteOrder ?buf) (toShort i)) (data arr))) ?buf"
    unfolding TriangleArray_toBuffer_def Let_def
    by (rule forEach_putBytes [where g = "\<lambda>bo i. shortBytes bo (toShort i)"])
       (use assms in \<open>auto simp: kassert_def putShort_def\<close>)
  also have "\<dots> = putBytes ?bs (order (nativeOrder P) (allocate (length ?bs)))"
    by (simp add: len order_def)
  also have "\<dots> = Inr \<lparr>bytes = ?bs, position = length ?bs, byteOrder = nativeOrder P\<rparr>"
    by (rule putBytes_exact)
  finally show ?thesis
    by (simp add: len kOctasphereIndexSize_def)
qed

lemma toBuffer_loop_assert:
  assumes "assertionsEnabled P" and "\<exists>i\<in>set vs. \<not> i \<le> Short_MAX_VALUE"
    and "2 * length vs \<le> length (bytes buf) - position buf"
  shows "forEach vs
           (\<lambda>i buf. rbind (kassert P IndexFitsShort (i \<le> Short_MAX_VALUE)) (\<lambda>_.
                     putShort (toShort i) buf)) buf
         = Inl (AssertionError IndexFitsShort)"
  using assms(2,3)
proof (induction vs arbitrary: buf)
  case Nil
  then show ?case by simp
next
  case (Cons v vs)
  show ?case
  proof (cases "v \<le> Short_MAX_VALUE")
    case False
    then show ?thesis using assms(1) by (simp add: kassert_def)
  next
    case True
    then have ex: "\<exists>i\<in>set vs. \<not> i \<le> Short_MAX_VALUE" using Cons.prems(1) by auto
    obtain b where b: "putShort (toShort v) buf = Inr b"
      and room: "2 * length vs \<le> length (bytes b) - position b"
      using Cons.prems(2) by (auto simp: putShort_def putBytes_def)
    show ?thesis using True b Cons.IH [OF ex room] by (simp add: kassert_def)
  qed
qed

lemma TriangleArray_toBuffer_assert:
  assumes "assertionsEnabled P" and "\<exists>i\<in>set (data arr). \<not> i \<le> Short_MAX_VALUE"
  shows "TriangleArray_toBuffer P arr = Inl (AssertionError IndexFitsShort)"
  unfolding TriangleArray_toBuffer_def Let_def
  by (rule toBuffer_loop_assert [OF assms])
     (simp add: order_def allocate_def kOctasphereIndexSize_def)

lemma fdiv_nonzero: "b \<noteq> 0 \<Longrightarrow> fdiv a b = Inr (a / b)"
  by (simp add: fdiv_def)

lemma writeGeodesic_appendAll:
  "writeGeodesic arr pointA pointB numSegments
     = appendAll (geodesicPoints pointA pointB numSegments) arr"
proof (cases "numSegments = 0")
  case True
  then show ?thesis by (simp add: writeGeodesic_def geodesicPoints_def write1_appendAll)
next
  case False
  then show ?thesis
    unfolding writeGeodesic_def geodesicPoints_def Let_def
    by (simp add: fdiv_nonzero write1_appendAll forEach_appendAll_fun appendAll_appendAll_bind
        appendAll_appendAll comp_def)
qed

lemma length_geodesicPoints [simp]: "length (geodesicPoints a b n) = n + 1"
  by (simp add: geodesicPoints_def)

lemma sum_list_descending:
  "c \<le> m \<Longrightarrow> sum_list (map (\<lambda>i. Suc (m - 1 - i)) [c..<m]) = triangular (m - c)"
proof (induction "m - c" arbitrary: c)
  case 0
  then show ?case by (simp add: triangular_def)
next
  case (Suc k)
  then have lt: "c < m" and k: "m - Suc c = k" and h: "m - c = Suc k" by simp_all
  have "sum_list (map (\<lambda>i. Suc (m - 1 - i)) [c..<m])
      = Suc (m - 1 - c) + sum_list (map (\<lambda>i. Suc (m - 1 - i)) [Suc c..<m])"
    using lt by (simp add: upt_conv_Cons)
  also have "\<dots> = Suc k + triangular k"
    using Suc.hyps(1) [of "Suc c"] lt k h by simp
  finally show ?case using h by (simp add: triangular_Suc)
qed

lemma length_firstPatchVertices:
  "length (firstPatchVertices n) = triangular (2 ^ clamp n 0 kOctasphereMaxSubdivisions + 1)"
  using sum_list_descending [of 0 "2 ^ clamp n 0 kOctasphereMaxSubdivisions + 1"]
  by (simp add: firstPatchVertices_def Let_def length_concat comp_def)

lemma length_unitSphereVertices:
  "length (unitSphereVertices n) = 8 * triangular (2 ^ clamp n 0 kOctasphereMaxSubdivisions + 1)"
  by (simp add: unitSphereVertices_def length_concat comp_def sum_list_triv
      length_firstPatchVertices)

lemma generateUnitSphere_appendAll:
  assumes "index arr = 0"
  shows "generateUnitSphere P arr n
       = rbind (appendAll (unitSphereVertices n) arr) (\<lambda>arr.
         rbind (kassert P PositionsFilled (index arr = length (data arr))) (\<lambda>_.
         Inr arr))"
proof -
  define d where "d = clamp n 0 kOctasphereMaxSubdivisions"
  let ?vpp = "(2 ^ d + 1) * (2 ^ d + 1 + 1) div 2 :: nat"
  let ?patch = "firstPatchVertices n"
  let ?copy = "\<lambda>octant s. forEach [0..<?vpp]
                 (\<lambda>i s. rbind (get s i)
                    (\<lambda>a. write1 (quaternionRotateVector (octantQuaternion octant) a) s)) s"
  let ?rest = "\<lambda>arr.
         rbind (kassert P PositionsFilled (index arr = length (data arr))) (\<lambda>_.
         Inr arr)"
  have vpp: "?vpp = length ?patch"
    by (simp add: length_firstPatchVertices triangular_def d_def)
  have rows: "forEach [0..<2 ^ d + 1]
     (\<lambda>i arr.
         rbind (fdiv (FPI * 0.5 * real i) (real (2 ^ d + 1 - 1)))
          (\<lambda>theta. writeGeodesic arr (Float3 0 (sin theta) (cos theta))
                     (Float3 (cos theta) (sin theta) 0) (2 ^ d + 1 - 1 - i))) s
     = appendAll ?patch s" for s
    unfolding firstPatchVertices_def Let_def d_def [symmetric]
    by (rule forEach_appendAll) (simp add: fdiv_nonzero writeGeodesic_appendAll)
  have unfolded: "generateUnitSphere P arr n
      = rbind (appendAll ?patch arr) (\<lambda>t. rbind (forEach [1..<8] ?copy t) ?rest)"
    unfolding generateUnitSphere_def Let_def d_def [symmetric] rows octantQuaternion_def
    by (simp add: rbind_assoc)
  show ?thesis
  proof (cases "appendAll ?patch arr")
    case (Inl e)
    then have e: "e = ArrayIndexOutOfBounds"
      and "length (data arr) - index arr < length ?patch"
      using appendAll_fails [OF Inl] by simp_all
    then have "appendAll (unitSphereVertices n) arr = Inl ArrayIndexOutOfBounds"
      by (simp add: appendAll_def unitSphereVertices_def)
    then show ?thesis using unfolded Inl e by simp
  next
    case (Inr t)
    then have fits: "length ?patch \<le> length (data arr) - index arr"
      and t: "t = arr\<lparr>data := take (index arr) (data arr) @ ?patch
                            @ drop (index arr + length ?patch) (data arr),
                 index := index arr + length ?patch\<rparr>"
      by (simp_all add: appendAll_Inr_iff)
    have 1: "take ?vpp (data t) = ?patch" unfolding vpp using t assms by simp
    have 2: "?vpp \<le> index t" unfolding vpp using t by simp
    have 3: "index t \<le> length (data t)" using t fits assms by simp
    have "forEach [1..<8] ?copy t
        = appendAll (concat (map (\<lambda>octant. map (quaternionRotateVector (octantQuaternion octant)) ?patch) [1..<8])) t"
      by (rule octant_loop [OF 1 2 3])
    then have "generateUnitSphere P arr n
      = rbind (rbind (appendAll ?patch arr)
           (appendAll (concat (map (\<lambda>octant. map (quaternionRotateVector (octantQuaternion octant)) ?patch) [1..<8]))))
          ?rest"
      using unfolded Inr by simp
    then show ?thesis
      by (simp only: appendAll_appendAll unitSphereVertices_def)
  qed
qed

lemma effectiveSubdivisions_le: "effectiveSubdivisions s \<le> 5"
  by (auto simp: effectiveSubdivisions_def clamp_def kOctasphereMaxSubdivisions_def)

lemma clamp_id: "d \<le> 5 \<Longrightarrow> clamp d 0 kOctasphereMaxSubdivisions = d"
  by (simp add: clamp_def kOctasphereMaxSubdivisions_def)

lemma appendAll_fresh:
  "index arr = 0 \<Longrightarrow> length vs \<le> length (data arr) \<Longrightarrow>
   appendAll vs arr = Inr (arr\<lparr>data := vs @ drop (length vs) (data arr), index := length vs\<rparr>)"
  by (simp add: appendAll_def)

lemma translateCorners_eq: "translateCorners arr dimensions radius n = Inr arr"
  by (simp add: translateCorners_def Let_def fdiv_nonzero)

lemma octaspherePositions_eq:
  assumes "d \<le> 5"
  shows "octaspherePositions P dimensions radius d ((2 ^ d + 1) * (2 ^ d + 1 + 1) div 2 * 8)
     = Inr \<lparr>data = scaledVertices radius d, index = triangular (2 ^ d + 1) * 8\<rparr>"
proof -
  let ?total = "(2 ^ d + 1) * (2 ^ d + 1 + 1) div 2 * 8 :: nat"
  have len: "length (unitSphereVertices d) = ?total"
    using assms by (simp add: length_unitSphereVertices clamp_id triangular_def)
  have "appendAll (unitSphereVertices d) (VertexArray ?total)
      = Inr \<lparr>data = unitSphereVertices d, index = ?total\<rparr>"
    by (subst appendAll_fresh) (simp_all add: VertexArray_def len)
  then have "generateUnitSphere P (VertexArray ?total) d
      = Inr \<lparr>data = unitSphereVertices d, index = ?total\<rparr>"
    by (subst generateUnitSphere_appendAll) (simp_all add: VertexArray_def kassert_def len)
  then show ?thesis
    unfolding octaspherePositions_def Let_def
    by (simp add: VertexArray_toBuffer_eq translateCorners_eq applyScale_def scaledVertices_def
        triangular_def)
qed

lemma totalIndices_split:
  "(((2 ^ d + 1 - 2) * (2 ^ d + 1 - 1) + (2 ^ d + 1) - 1) * 8
      + ((4 + 4 + 4) * (2 ^ d + 1 - 1) + 6) * 2) * 3
   = length (octasphereIndices d) + seamSlots d"
  using trianglesPerPatch_eq [of d]
  by (simp only: length_octasphereIndices seamSlots_def) simp

lemma generateIndices_eq:
  "generateIndices P (TriangleArray ((length (octasphereIndices d) + seamSlots d) div 3)) d
     = (if assertionsEnabled P then Inl (AssertionError TrianglesFilled)
        else Inr \<lparr>data = triangleData d, index = length (octasphereIndices d)\<rparr>)"
proof -
  let ?n = "length (octasphereIndices d) + seamSlots d"
  have three: "?n div 3 * 3 = ?n"
    by (simp add: length_octasphereIndices seamSlots_def)
  have pos: "0 < seamSlots d" by (simp add: seamSlots_def)
  have "appendAll (octasphereIndices d) (TriangleArray (?n div 3))
      = Inr \<lparr>data = triangleData d, index = length (octasphereIndices d)\<rparr>"
    by (subst appendAll_fresh) (simp_all add: TriangleArray_def three triangleData_def)
  then show ?thesis
    using pos
    by (subst generateIndices_appendAll) (simp_all add: TriangleArray_def kassert_def triangleData_def)
qed

lemma triangular_mono: "a \<le> b \<Longrightarrow> triangular a \<le> triangular b"
  unfolding triangular_def by (intro div_le_mono mult_le_mono) simp_all

lemma totalVertices_bound:
  assumes "d \<le> 5"
  shows "8 * triangular (2 ^ d + 1) \<le> 4488"
proof -
  have "(2::nat) ^ d \<le> 2 ^ 5" using assms by (intro power_increasing) simp_all
  then have "triangular (2 ^ d + 1) \<le> triangular 33"
    by (intro triangular_mono) simp
  also have "triangular 33 = 561" by (simp add: triangular_def)
  finally show ?thesis by simp
qed

lemma triangleData_bound:
  assumes "a \<in> set (triangleData d)"
  shows "a < 8 * triangular (2 ^ d + 1)"
proof -
  have "0 < triangular (2 ^ d + 1)"
    using triangular_Suc [of "2 ^ d"] by simp
  then show ?thesis
    using assms octasphereIndices_bound [of a d] by (auto simp: triangleData_def)
qed

lemma length_scaledVertices:
  "d \<le> 5 \<Longrightarrow> length (scaledVertices radius d) = triangular (2 ^ d + 1) * 8"
  by (simp add: scaledVertices_def length_unitSphereVertices clamp_id)

lemma length_triangleData: "length (triangleData d) = length (octasphereIndices d) + seamSlots d"
  by (simp add: triangleData_def)

lemma generateOctasphere_eq:
  "generateOctasphere P dimensions radius subdivisions
     = (if assertionsEnabled P then Inl (AssertionError TrianglesFilled)
        else Inr (octasphereMesh P radius (effectiveSubdivisions subdivisions)))"
proof -
  define d where "d = effectiveSubdivisions subdivisions"
  have d: "d \<le> 5" unfolding d_def by (rule effectiveSubdivisions_le)
  have short: "\<forall>i\<in>set (triangleData d). i \<le> Short_MAX_VALUE"
    using triangleData_bound [of _ d] totalVertices_bound [OF d]
    by (fastforce simp: Short_MAX_VALUE_def)
  have tri: "TriangleArray_toBuffer P \<lparr>data = triangleData d, index = length (octasphereIndices d)\<rparr>
     = Inr \<lparr>bytes = concat (map (\<lambda>i. shortBytes (nativeOrder P) (toShort i)) (triangleData d)),
            position = length (triangleData d) * 2, byteOrder = nativeOrder P\<rparr>"
    using short by (subst TriangleArray_toBuffer_ok) simp_all
  show ?thesis
    unfolding generateOctasphere_def Let_def effectiveSubdivisions_def [symmetric] d_def [symmetric]
      totalIndices_split octaspherePositions_eq [OF d] generateIndices_eq
    by (simp add: VertexArray_toBuffer_eq tri octasphereMesh_def length_scaledVertices [OF d]
        length_triangleData order_def allocate_def kOctasphereTangentSize_def kFloatSize_def
        triangular_def)
qed

section \<open>Rotations in exact arithmetic\<close>

lemma quaternionRotateVector_rotation:
  "quaternionRotateVector (quaternionFromRotation axis radians) v
     = plus3 (plus3 (times3 (cross axis v) (sin radians)) v)
             (times3 (cross axis (cross axis v)) (1 - cos radians))"
proof -
  have s: "sin radians = 2 * sin (0.5 * radians) * cos (0.5 * radians)"
    using sin_double [of "0.5 * radians"] by simp
  have c: "1 - cos radians = 2 * (sin (0.5 * radians)) ^ 2"
    using cos_double_sin [of "0.5 * radians"] by simp
  show ?thesis
    unfolding s c
    by (simp add: quaternionRotateVector_def quaternionFromRotation_def Let_def times3_def
        plus3_def cross_def xyz_def Float4_of_def power2_eq_square algebra_simps)
qed

lemma dot_arc: "dot arcA arcB = 1 / 2"
  by (simp add: dot_def arcA_def arcB_def)

lemma cross_arc: "cross arcA arcB = Float3 (- 1 / 2) (1 / 2) (- 1 / 2)"
  by (simp add: cross_def arcA_def arcB_def)

lemma sqrt6: "sqrt 6 = sqrt 2 * sqrt 3"
  using real_sqrt_mult [of 2 3] by simp

lemma arc_inner_point:
  "quaternionRotateVector (quaternionFromRotation (cross arcA arcB) (arccos (dot arcA arcB) / real 2 * real 1)) arcA
     = arcInner"
proof -
  have ang: "arccos (dot arcA arcB) / real 2 * real 1 = pi / 6"
    by (simp add: dot_arc)
  show ?thesis
    unfolding ang quaternionRotateVector_rotation cross_arc sin_30 cos_30
    by (simp add: arcA_def arcInner_def plus3_def times3_def cross_def sqrt6 field_simps)
qed

lemma arcInner_norm: "dot arcInner arcInner = (43 + 12 * sqrt 3) / 64"
proof -
  define a b :: real where "a = sqrt 2" and "b = sqrt 3"
  have a: "a * a = 2" and b: "b * b = 3" by (simp_all add: a_def b_def)
  have "(a / 4) * (a / 4) + (a / 4 + 3 * (a * b) / 16) * (a / 4 + 3 * (a * b) / 16)
          + (3 * (a * b) / 16) * (3 * (a * b) / 16)
      = (a * a) * (1 / 8 + 3 * b / 32 + 18 * (b * b) / 256)"
    by (simp add: field_simps)
  also have "\<dots> = (43 + 12 * b) / 64" unfolding a b by (simp add: field_simps)
  finally show ?thesis
    by (simp add: dot_def arcInner_def sqrt6 a_def b_def)
qed

lemma firstPatchVertices_0:
  "firstPatchVertices 0 = [Float3 0 0 1, Float3 1 0 0, Float3 0 1 0]"
  by (simp add: firstPatchVertices_def clamp_def Let_def geodesicPoints_def FPI_def upt_rec [of 0 2] upt_rec [of 1 2])

lemma sin_135: "sin (3 * pi / 4) = sqrt 2 / 2"
  using sin_pi_minus [of "pi / 4"] by (simp add: sin_45)

lemma cos_135: "cos (3 * pi / 4) = - (sqrt 2 / 2)"
  using cos_pi_minus [of "pi / 4"] by (simp add: cos_45)

lemma octantQuaternions:
  "octantQuaternion 1 = Float4 0 (sqrt 2 / 2) 0 (sqrt 2 / 2)"
  "octantQuaternion 2 = Float4 0 1 0 0"
  "octantQuaternion 3 = Float4 0 (sqrt 2 / 2) 0 (- (sqrt 2 / 2))"
  "octantQuaternion 4 = Float4 (sqrt 2 / 2) 0 0 (sqrt 2 / 2)"
  "octantQuaternion 5 = Float4 (1 / 2) (- (1 / 2)) (1 / 2) (1 / 2)"
  "octantQuaternion 6 = Float4 0 (- (sqrt 2 / 2)) (sqrt 2 / 2) 0"
  "octantQuaternion 7 = Float4 (- (1 / 2)) (- (1 / 2)) (1 / 2) (- (1 / 2))"
  by (simp_all add: octantQuaternion_def octants_def quaternionFromEulers_def Let_def times3_def
      FPI_def sin_45 cos_45 sin_135 cos_135)

lemma rotate_components:
  "quaternionRotateVector (Float4 a b c w) (Float3 x y z)
     = Float3 (2 * (b * z - c * y) * w + x + (b * (2 * (a * y - b * x)) - c * (2 * (c * x - a * z))))
              (2 * (c * x - a * z) * w + y + (c * (2 * (b * z - c * y)) - a * (2 * (a * y - b * x))))
              (2 * (a * y - b * x) * w + z + (a * (2 * (c * x - a * z)) - b * (2 * (b * z - c * y))))"
  by (simp add: quaternionRotateVector_def Let_def xyz_def cross_def times3_def plus3_def
      algebra_simps)

lemma rotated_patches_0:
  "quaternionRotateVector (octantQuaternion 1) (Float3 0 0 1) = Float3 1 0 0"
  "quaternionRotateVector (octantQuaternion 1) (Float3 1 0 0) = Float3 0 0 (- 1)"
  "quaternionRotateVector (octantQuaternion 1) (Float3 0 1 0) = Float3 0 1 0"
  "quaternionRotateVector (octantQuaternion 2) (Float3 0 0 1) = Float3 0 0 (- 1)"
  "quaternionRotateVector (octantQuaternion 2) (Float3 1 0 0) = Float3 (- 1) 0 0"
  "quaternionRotateVector (octantQuaternion 2) (Float3 0 1 0) = Float3 0 1 0"
  "quaternionRotateVector (octantQuaternion 3) (Float3 0 0 1) = Float3 (- 1) 0 0"
  "quaternionRotateVector (octantQuaternion 3) (Float3 1 0 0) = Float3 0 0 1"
  "quaternionRotateVector (octantQuaternion 3) (Float3 0 1 0) = Float3 0 1 0"
  "quaternionRotateVector (octantQuaternion 4) (Float3 0 0 1) = Float3 0 (- 1) 0"
  "quaternionRotateVector (octantQuaternion 4) (Float3 1 0 0) = Float3 1 0 0"
  "quaternionRotateVector (octantQuaternion 4) (Float3 0 1 0) = Float3 0 0 1"
  "quaternionRotateVector (octantQuaternion 5) (Float3 0 0 1) = Float3 0 (- 1) 0"
  "quaternionRotateVector (octantQuaternion 5) (Float3 1 0 0) = Float3 0 0 1"
  "quaternionRotateVector (octantQuaternion 5) (Float3 0 1 0) = Float3 (- 1) 0 0"
  "quaternionRotateVector (octantQuaternion 6) (Float3 0 0 1) = Float3 0 (- 1) 0"
  "quaternionRotateVector (octantQuaternion 6) (Float3 1 0 0) = Float3 (- 1) 0 0"
  "quaternionRotateVector (octantQuaternion 6) (Float3 0 1 0) = Float3 0 0 (- 1)"
  "quaternionRotateVector (octantQuaternion 7) (Float3 0 0 1) = Float3 0 (- 1) 0"
  "quaternionRotateVector (octantQuaternion 7) (Float3 1 0 0) = Float3 0 0 (- 1)"
  "quaternionRotateVector (octantQuaternion 7) (Float3 0 1 0) = Float3 1 0 0"
  unfolding octantQuaternions rotate_components by simp_all

lemma unitSphereVertices_0:
  "unitSphereVertices 0 =
     [Float3 0 0 1, Float3 1 0 0, Float3 0 1 0,
      Float3 1 0 0, Float3 0 0 (- 1), Float3 0 1 0,
      Float3 0 0 (- 1), Float3 (- 1) 0 0, Float3 0 1 0,
      Float3 (- 1) 0 0, Float3 0 0 1, Float3 0 1 0,
      Float3 0 (- 1) 0, Float3 1 0 0, Float3 0 0 1,
      Float3 0 (- 1) 0, Float3 0 0 1, Float3 (- 1) 0 0,
      Float3 0 (- 1) 0, Float3 (- 1) 0 0, Float3 0 0 (- 1),
      Float3 0 (- 1) 0, Float3 0 0 (- 1), Float3 1 0 0]"
  unfolding unitSphereVertices_def firstPatchVertices_0 upt_1_8
  by (simp only: list.map concat.simps rotated_patches_0 append.simps)

lemma upt_0_5: "[0..<5] = [0, 1, 2, 3, 4::nat]"
  by (simp add: upt_rec [of _ 5] upt_rec [of _ 4] upt_rec [of _ 3] upt_rec [of _ 2] upt_rec [of _ 1])

lemma geodesicPoints_arc: "geodesicPoints arcA arcB 2 ! 1 = arcInner"
  using arc_inner_point by (simp add: geodesicPoints_def upt_conv_Cons)

lemma firstPatchVertices_2_10: "firstPatchVertices 2 ! 10 = arcInner"
proof -
  have theta: "FPI * 0.5 * real 2 / real (2 ^ 2 + 1 - 1) = pi / 4"
    by (simp add: FPI_def)
  have "firstPatchVertices 2 ! 10
      = geodesicPoints (Float3 0 (sin (pi / 4)) (cos (pi / 4))) (Float3 (cos (pi / 4)) (sin (pi / 4)) 0) 2 ! 1"
    unfolding firstPatchVertices_def Let_def
    by (simp add: clamp_def kOctasphereMaxSubdivisions_def upt_0_5 nth_append FPI_def)
  also have "\<dots> = arcInner"
    unfolding sin_45 cos_45 by (rule geodesicPoints_arc [unfolded arcA_def arcB_def])
  finally show ?thesis .
qed

lemma scaledVertices_2_10: "scaledVertices 1 2 ! 10 = arcInner"
proof -
  have len: "length (firstPatchVertices 2) = 15"
    by (simp add: length_firstPatchVertices clamp_def kOctasphereMaxSubdivisions_def triangular_def)
  have "unitSphereVertices 2 ! 10 = arcInner"
    by (simp add: unitSphereVertices_def nth_append len firstPatchVertices_2_10)
  moreover have "10 < length (unitSphereVertices 2)"
    by (simp add: unitSphereVertices_def len)
  ultimately show ?thesis
    by (simp add: scaledVertices_def)
qed

lemma arcInner_norm_less: "(43 + 12 * sqrt 3) / 64 < (1::real)"
proof -
  have "sqrt 3 < 7 / 4" by (rule real_less_lsqrt) (simp_all add: power2_eq_square)
  then show ?thesis by simp
qed

lemma octasphere_counts_fit_Int:
  assumes "level \<le> 5"
  shows "verticesPerPatch level * 8 < 2 ^ 31"
    and "(trianglesPerPatch level * 8 + numConnectionQuads level * 2) * 3 < 2 ^ 31"
proof -
  have p: "(2::nat) ^ level \<le> 32"
    using power_increasing [of level 5 "2::nat"] assms by simp
  have "verticesPerPatch level * 8 \<le> 4488"
    using totalVertices_bound [OF assms]
    by (simp add: verticesPerPatch_def verticesPerLine_def triangular_def)
  then show "verticesPerPatch level * 8 < 2 ^ 31" by simp
  have "((2::nat) ^ level)\<^sup>2 \<le> 32\<^sup>2" using p by (rule power_mono) simp
  then have "trianglesPerPatch level \<le> 1024"
    using trianglesPerPatch_eq [of level]
    by (simp add: trianglesPerPatch_def verticesPerLine_def)
  moreover have "numConnectionQuads level \<le> 390"
    using p by (simp add: numConnectionQuads_def verticesPerLine_def)
  ultimately show "(trianglesPerPatch level * 8 + numConnectionQuads level * 2) * 3 < 2 ^ 31"
    by simp
qed

lemma effectiveSubdivisions_int: "level \<le> 5 \<Longrightarrow> effectiveSubdivisions (int level) = level"
  by (simp add: effectiveSubdivisions_def clamp_def kOctasphereMaxSubdivisions_def)

lemma numIndices_octasphereMesh:
  "numIndices (octasphereMesh P radius d)
     = (trianglesPerPatch d * 8 + numConnectionQuads d * 2) * 3"
  using totalIndices_split [of d]
  by (simp add: octasphereMesh_def trianglesPerPatch_def numConnectionQuads_def verticesPerLine_def)

lemma length_octasphereIndices_tpp:
  "length (octasphereIndices d) = trianglesPerPatch d * 8 * 3"
  using trianglesPerPatch_eq [of d]
  by (simp add: length_octasphereIndices trianglesPerPatch_def verticesPerLine_def)

lemma generateIndices_of_mesh:
  assumes "\<not> assertionsEnabled P"
  shows "generateIndices P (TriangleArray (numIndices (octasphereMesh P radius d) div 3)) d
     = Inr \<lparr>data = triangleData d, index = length (octasphereIndices d)\<rparr>"
  using assms generateIndices_eq [of P d] by (simp add: octasphereMesh_def)

lemma toBuffer_of_mesh:
  assumes "d \<le> 5"
  shows "TriangleArray_toBuffer P \<lparr>data = triangleData d, index = length (octasphereIndices d)\<rparr>
     = Inr (indices (octasphereMesh P radius d))"
proof -
  have "\<forall>i\<in>set (triangleData d). i \<le> Short_MAX_VALUE"
    using triangleData_bound [of _ d] totalVertices_bound [OF assms]
    by (fastforce simp: Short_MAX_VALUE_def)
  then show ?thesis
    by (subst TriangleArray_toBuffer_ok) (simp_all add: octasphereMesh_def length_triangleData)
qed

lemma octaspherePositions_of_mesh:
  assumes "d \<le> 5"
  shows "octaspherePositions P dimensions radius d (numVertices (octasphereMesh P radius' d))
     = Inr \<lparr>data = scaledVertices radius d, index = triangular (2 ^ d + 1) * 8\<rparr>"
  using octaspherePositions_eq [OF assms, of P dimensions radius]
  by (simp add: octasphereMesh_def triangular_def)

lemma positions_toBuffer_of_mesh:
  assumes "d \<le> 5"
  shows "VertexArray_toBuffer P \<lparr>data = scaledVertices radius d, index = k\<rparr>
     = Inr (positions (octasphereMesh P radius d))"
  by (simp add: VertexArray_toBuffer_eq octasphereMesh_def length_scaledVertices [OF assms])

lemma scaledVertices_0:
  "scaledVertices radius 0 =
     [Float3 0 0 radius, Float3 radius 0 0, Float3 0 radius 0,
      Float3 radius 0 0, Float3 0 0 (- radius), Float3 0 radius 0,
      Float3 0 0 (- radius), Float3 (- radius) 0 0, Float3 0 radius 0,
      Float3 (- radius) 0 0, Float3 0 0 radius, Float3 0 radius 0,
      Float3 0 (- radius) 0, Float3 radius 0 0, Float3 0 0 radius,
      Float3 0 (- radius) 0, Float3 0 0 radius, Float3 (- radius) 0 0,
      Float3 0 (- radius) 0, Float3 (- radius) 0 0, Float3 0 0 (- radius),
      Float3 0 (- radius) 0, Float3 0 0 (- radius), Float3 radius 0 0]"
  by (simp add: scaledVertices_def unitSphereVertices_0)

lemma effectiveSubdivisions_0: "effectiveSubdivisions 0 = 0"
  by (simp add: effectiveSubdivisions_def clamp_def)

lemma block_at:
  assumes "\<And>v. length (f v) = k"
  shows "i < length vs \<Longrightarrow> take k (drop (i * k) (concat (map f vs))) = f (vs ! i)"
proof (induction vs arbitrary: i)
  case Nil
  then show ?case by simp
next
  case (Cons v vs)
  show ?case
  proof (cases i)
    case 0
    then show ?thesis using assms by simp
  next
    case (Suc j)
    then have "j < length vs" using Cons.prems by simp
    then show ?thesis using Cons.IH [of j] assms Suc by simp
  qed
qed

lemma effectiveSubdivisions_above: "5 < s \<Longrightarrow> effectiveSubdivisions s = 5"
  by (simp add: effectiveSubdivisions_def clamp_def kOctasphereMaxSubdivisions_def)

lemma effectiveSubdivisions_5: "effectiveSubdivisions 5 = 5"
  by (simp add: effectiveSubdivisions_def clamp_def kOctasphereMaxSubdivisions_def)

lemma dot_arcA: "dot arcA arcA = 1" and dot_arcB: "dot arcB arcB = 1"
  by (simp_all add: dot_def arcA_def arcB_def)

lemma writeGeodesic_arc:
  "writeGeodesic (VertexArray 3) arcA arcB 2 = Inr \<lparr>data = [arcA, arcInner, arcB], index = 3\<rparr>"
proof -
  have "geodesicPoints arcA arcB 2 = [arcA, arcInner, arcB]"
    using arc_inner_point by (simp add: geodesicPoints_def upt_conv_Cons)
  then show ?thesis
    by (simp add: writeGeodesic_appendAll appendAll_def VertexArray_def)
qed

section \<open>The claims\<close>

text \<open>
  Claim C1, as amended. At subdivision level 0 the returned vertex count is 24: each of the
  eight patches has its own three vertices, and a vertex of the octahedron is repeated in
  every patch that touches it. In exact arithmetic the 24 positions are the six vertices
  of the regular octahedron of the given radius, the points at distance \<open>radius\<close> on
  the three axes, and each of the six occurs. (The call returns a mesh when assertions
  are not enabled.)
\<close>

theorem level0_octahedron:
  assumes "\<not> assertionsEnabled P"
  shows "\<exists>mesh arr.
      generateOctasphere P dimensions radius 0 = Inr mesh
    \<and> numVertices mesh = 24
    \<and> octaspherePositions P dimensions radius 0 (numVertices mesh) = Inr arr
    \<and> VertexArray_toBuffer P arr = Inr (positions mesh)
    \<and> length (data arr) = 24
    \<and> set (data arr) = {Float3 radius 0 0, Float3 (- radius) 0 0,
                          Float3 0 radius 0, Float3 0 (- radius) 0,
                          Float3 0 0 radius, Float3 0 0 (- radius)}"
proof (intro exI conjI)
  let ?mesh = "octasphereMesh P radius 0"
  let ?arr = "\<lparr>data = scaledVertices radius 0, index = triangular (2 ^ 0 + 1) * 8\<rparr>"
  show "generateOctasphere P dimensions radius 0 = Inr ?mesh"
    using assms by (simp add: generateOctasphere_eq effectiveSubdivisions_0)
  show "numVertices ?mesh = 24"
    by (simp add: octasphereMesh_def triangular_def)
  show "octaspherePositions P dimensions radius 0 (numVertices ?mesh) = Inr ?arr"
    by (rule octaspherePositions_of_mesh) simp
  show "VertexArray_toBuffer P ?arr = Inr (positions ?mesh)"
    by (rule positions_toBuffer_of_mesh) simp
  show "length (data ?arr) = 24"
    by (simp add: scaledVertices_0)
  show "set (data ?arr) = {Float3 radius 0 0, Float3 (- radius) 0 0,
                          Float3 0 radius 0, Float3 0 (- radius) 0,
                          Float3 0 0 radius, Float3 0 0 (- radius)}"
    by (simp add: scaledVertices_0) blast
qed

theorem level0_octahedron_witness:
  "\<exists>mesh arr.
      generateOctasphere (jvm False) (Float3 0 0 0) 1 0 = Inr mesh
    \<and> numVertices mesh = 24
    \<and> octaspherePositions (jvm False) (Float3 0 0 0) 1 0 (numVertices mesh) = Inr arr
    \<and> VertexArray_toBuffer (jvm False) arr = Inr (positions mesh)
    \<and> length (data arr) = 24
    \<and> set (data arr) = {Float3 1 0 0, Float3 (- 1) 0 0, Float3 0 1 0, Float3 0 (- 1) 0,
                          Float3 0 0 1, Float3 0 0 (- 1)}"
  using level0_octahedron [of "jvm False" "Float3 0 0 0" 1]
  by (simp add: jvm_def)

text \<open>
  Claim C1 as stated fails: the vertex count at level 0 is 24, not 8.
\<close>

theorem level0_vertex_count_counterexample:
  "map_sum id numVertices (generateOctasphere (jvm False) (Float3 0 0 0) 1 0) = Inr 24
   \<and> map_sum id numVertices (generateOctasphere (jvm False) (Float3 0 0 0) 1 0) \<noteq> Inr 8"
  by (simp add: generateOctasphere_eq jvm_def effectiveSubdivisions_0 octasphereMesh_def
      triangular_def)

text \<open>
  Claim C2, as amended. For every subdivision level in 0..5, \<^verbatim>\<open>generateIndices\<close> writes
  exactly \<open>trianglesPerPatch * 8 * 3\<close> indices; the returned index count is
  \<open>(trianglesPerPatch * 8 + numConnectionQuads * 2) * 3\<close>, which also counts two
  triangles for each seam quad; and every index of the returned index buffer is below the
  vertex count.
\<close>

theorem index_counts:
  assumes "level \<le> 5" and "\<not> assertionsEnabled P"
  shows "\<exists>mesh triangles.
      generateOctasphere P dimensions radius (int level) = Inr mesh
    \<and> generateIndices P (TriangleArray (numIndices mesh div 3)) level = Inr triangles
    \<and> TriangleArray_toBuffer P triangles = Inr (indices mesh)
    \<and> index triangles = trianglesPerPatch level * 8 * 3
    \<and> numIndices mesh = (trianglesPerPatch level * 8 + numConnectionQuads level * 2) * 3
    \<and> length (data triangles) = numIndices mesh
    \<and> (\<forall>i\<in>set (data triangles). i < numVertices mesh)"
proof (intro exI conjI)
  let ?mesh = "octasphereMesh P radius level"
  let ?triangles = "\<lparr>data = triangleData level, index = length (octasphereIndices level)\<rparr>"
  show "generateOctasphere P dimensions radius (int level) = Inr ?mesh"
    using assms by (simp add: generateOctasphere_eq effectiveSubdivisions_int)
  show "generateIndices P (TriangleArray (numIndices ?mesh div 3)) level = Inr ?triangles"
    using assms(2) by (rule generateIndices_of_mesh)
  show "TriangleArray_toBuffer P ?triangles = Inr (indices ?mesh)"
    using assms(1) by (rule toBuffer_of_mesh)
  show "index ?triangles = trianglesPerPatch level * 8 * 3"
    by (simp add: length_octasphereIndices_tpp)
  show "numIndices ?mesh = (trianglesPerPatch level * 8 + numConnectionQuads level * 2) * 3"
    by (rule numIndices_octasphereMesh)
  show "length (data ?triangles) = numIndices ?mesh"
    by (simp add: length_triangleData octasphereMesh_def)
  show "\<forall>i\<in>set (data ?triangles). i < numVertices ?mesh"
    using triangleData_bound [of _ level] by (simp add: octasphereMesh_def mult.commute)
qed

theorem index_counts_witness:
  "\<exists>mesh triangles.
      generateOctasphere (jvm False) (Float3 0 0 0) 1 0 = Inr mesh
    \<and> generateIndices (jvm False) (TriangleArray (numIndices mesh div 3)) 0 = Inr triangles
    \<and> TriangleArray_toBuffer (jvm False) triangles = Inr (indices mesh)
    \<and> index triangles = 24
    \<and> numIndices mesh = 132
    \<and> length (data triangles) = numIndices mesh
    \<and> (\<forall>i\<in>set (data triangles). i < numVertices mesh)"
  using index_counts [of 0 "jvm False" "Float3 0 0 0" 1]
  by (simp add: jvm_def trianglesPerPatch_def numConnectionQuads_def verticesPerLine_def)

text \<open>
  Claim C2 as stated fails: at level 0 the returned index count is 132, while
  \<open>trianglesPerPatch * 8 * 3\<close> is 24.
\<close>

theorem index_count_counterexample:
  "map_sum id numIndices (generateOctasphere (jvm False) (Float3 0 0 0) 1 0) = Inr 132
   \<and> trianglesPerPatch 0 * 8 * 3 = 24"
  by (simp add: generateOctasphere_eq jvm_def effectiveSubdivisions_def clamp_def
      numIndices_octasphereMesh trianglesPerPatch_def numConnectionQuads_def verticesPerLine_def)

text \<open>
  Claim C3. Every index that \<^verbatim>\<open>generateOctasphere\<close> hands to the index buffer is at most
  65535, and the assertion of \<^verbatim>\<open>TriangleArray.toBuffer\<close> enforces the bound: with assertions
  enabled, \<^verbatim>\<open>toBuffer\<close> returns a buffer only if every index of the array is at most
  \<^verbatim>\<open>Short.MAX_VALUE\<close>, hence at most 65535.
\<close>

theorem indices_fit_16_bits:
  "(\<not> assertionsEnabled P \<longrightarrow>
      (\<exists>mesh triangles.
          generateOctasphere P dimensions radius subdivisions = Inr mesh
        \<and> generateIndices P (TriangleArray (numIndices mesh div 3))
             (effectiveSubdivisions subdivisions) = Inr triangles
        \<and> TriangleArray_toBuffer P triangles = Inr (indices mesh)
        \<and> (\<forall>i\<in>set (data triangles). i \<le> 65535)))
   \<and> (assertionsEnabled P \<and> TriangleArray_toBuffer P arr = Inr buf \<longrightarrow>
        (\<forall>i\<in>set (data arr). i \<le> Short_MAX_VALUE \<and> i \<le> 65535))"
proof (intro conjI impI)
  define d where "d = effectiveSubdivisions subdivisions"
  have d: "d \<le> 5" unfolding d_def by (rule effectiveSubdivisions_le)
  let ?mesh = "octasphereMesh P radius d"
  let ?triangles = "\<lparr>data = triangleData d, index = length (octasphereIndices d)\<rparr>"
  assume ea: "\<not> assertionsEnabled P"
  have "\<forall>i\<in>set (data ?triangles). i \<le> 65535"
    using triangleData_bound [of _ d] totalVertices_bound [OF d] by fastforce
  then show "\<exists>mesh triangles.
          generateOctasphere P dimensions radius subdivisions = Inr mesh
        \<and> generateIndices P (TriangleArray (numIndices mesh div 3))
             (effectiveSubdivisions subdivisions) = Inr triangles
        \<and> TriangleArray_toBuffer P triangles = Inr (indices mesh)
        \<and> (\<forall>i\<in>set (data triangles). i \<le> 65535)"
    using ea generateIndices_of_mesh [OF ea, of radius d] toBuffer_of_mesh [OF d, of P radius]
    unfolding d_def [symmetric]
    by (intro exI [of _ ?mesh] exI [of _ ?triangles]) (simp add: generateOctasphere_eq d_def)
next
  assume a: "assertionsEnabled P \<and> TriangleArray_toBuffer P arr = Inr buf"
  have "\<forall>i\<in>set (data arr). i \<le> Short_MAX_VALUE"
  proof (rule ccontr)
    assume "\<not> (\<forall>i\<in>set (data arr). i \<le> Short_MAX_VALUE)"
    then have "TriangleArray_toBuffer P arr = Inl (AssertionError IndexFitsShort)"
      using a by (intro TriangleArray_toBuffer_assert) auto
    then show False using a by simp
  qed
  then show "\<forall>i\<in>set (data arr). i \<le> Short_MAX_VALUE \<and> i \<le> 65535"
    by (auto simp: Short_MAX_VALUE_def)
qed

theorem indices_fit_16_bits_witness:
  "(\<exists>mesh triangles.
          generateOctasphere (jvm False) (Float3 0 0 0) 1 0 = Inr mesh
        \<and> generateIndices (jvm False) (TriangleArray (numIndices mesh div 3)) 0 = Inr triangles
        \<and> TriangleArray_toBuffer (jvm False) triangles = Inr (indices mesh)
        \<and> (\<forall>i\<in>set (data triangles). i \<le> 65535))
   \<and> TriangleArray_toBuffer (jvm True) \<lparr>data = [0, 1, 2], index = 3\<rparr>
        = Inr \<lparr>bytes = [Byte 0, Byte 0, Byte 1, Byte 0, Byte 2, Byte 0], position = 6,
               byteOrder = LITTLE_ENDIAN\<rparr>
   \<and> list_all (\<lambda>i. i \<le> Short_MAX_VALUE \<and> i \<le> 65535) [0, 1, 2::nat]"
proof -
  have buf: "TriangleArray_toBuffer (jvm True) \<lparr>data = [0, 1, 2], index = 3\<rparr>
        = Inr \<lparr>bytes = [Byte 0, Byte 0, Byte 1, Byte 0, Byte 2, Byte 0], position = 6,
               byteOrder = LITTLE_ENDIAN\<rparr>"
    by (subst TriangleArray_toBuffer_ok)
       (simp_all add: jvm_def Short_MAX_VALUE_def shortBytes_def toShort_def)
  show ?thesis
    using indices_fit_16_bits [of "jvm False" "Float3 0 0 0" 1 0]
      indices_fit_16_bits [of "jvm True" _ _ _ "\<lparr>data = [0, 1, 2], index = 3\<rparr>"
        "\<lparr>bytes = [Byte 0, Byte 0, Byte 1, Byte 0, Byte 2, Byte 0], position = 6,
               byteOrder = LITTLE_ENDIAN\<rparr>"] buf
    by (simp add: jvm_def effectiveSubdivisions_0)
qed

text \<open>
  Claim C4. A subdivision argument above 5 gives exactly the result of the argument 5:
  the clamp yields level 5, no error is raised for the argument being out of range, and
  where assertions are not enabled the call returns a mesh, with the vertex count of
  level 5.
\<close>

theorem subdivisions_clamped:
  assumes "5 < subdivisions"
  shows "generateOctasphere P dimensions radius subdivisions
           = generateOctasphere P dimensions radius 5
       \<and> clamp subdivisions 0 (int kOctasphereMaxSubdivisions) = 5
       \<and> (\<not> assertionsEnabled P \<longrightarrow>
            (\<exists>mesh. generateOctasphere P dimensions radius subdivisions = Inr mesh
                  \<and> numVertices mesh = (2 ^ 5 + 1) * (2 ^ 5 + 1 + 1) div 2 * 8))"
proof (intro conjI impI)
  show "generateOctasphere P dimensions radius subdivisions
           = generateOctasphere P dimensions radius 5"
    using assms by (simp add: generateOctasphere_eq effectiveSubdivisions_above
        effectiveSubdivisions_5)
  show "clamp subdivisions 0 (int kOctasphereMaxSubdivisions) = 5"
    using assms by (simp add: clamp_def kOctasphereMaxSubdivisions_def)
  assume "\<not> assertionsEnabled P"
  then show "\<exists>mesh. generateOctasphere P dimensions radius subdivisions = Inr mesh
                  \<and> numVertices mesh = (2 ^ 5 + 1) * (2 ^ 5 + 1 + 1) div 2 * 8"
    using assms by (simp add: generateOctasphere_eq effectiveSubdivisions_above
        octasphereMesh_def triangular_def)
qed

theorem subdivisions_clamped_witness:
  "generateOctasphere (jvm False) (Float3 0 0 0) 1 6
     = generateOctasphere (jvm False) (Float3 0 0 0) 1 5
   \<and> clamp 6 0 (int kOctasphereMaxSubdivisions) = 5
   \<and> (\<exists>mesh. generateOctasphere (jvm False) (Float3 0 0 0) 1 6 = Inr mesh
             \<and> numVertices mesh = 4488)"
proof -
  have h: "(5::int) < 6" by simp
  have ea: "\<not> assertionsEnabled (jvm False)" by (simp add: jvm_def)
  have n: "(2 ^ 5 + 1) * (2 ^ 5 + 1 + 1) div 2 * 8 = (4488::nat)" by simp
  show ?thesis
    using subdivisions_clamped [OF h, of "jvm False" "Float3 0 0 0" 1] ea
    unfolding n by blast
qed

text \<open>
  Claim C5 holds of the documented behaviour, not of the code. The rotation axis
  \<^verbatim>\<open>cross(pointA, pointB)\<close> is not normalised, so the quaternion of
  \<^verbatim>\<open>quaternionFromRotation\<close> is not a unit quaternion unless the endpoints are
  perpendicular. For the unit vectors \<open>arcA\<close> and \<open>arcB\<close>, which \<^verbatim>\<open>generateUnitSphere\<close>
  passes at level 2, and two segments, the interpolated point has squared length
  \<open>(43 + 12 * sqrt 3) / 64\<close>, which is less than 1.
\<close>

theorem geodesic_point_inside_unit_sphere:
  "dot arcA arcA = 1 \<and> dot arcB arcB = 1
   \<and> map_sum id (\<lambda>arr. dot (data arr ! 1) (data arr ! 1))
        (writeGeodesic (VertexArray 3) arcA arcB 2) = Inr ((43 + 12 * sqrt 3) / 64)
   \<and> (43 + 12 * sqrt 3) / 64 < (1::real)"
proof (intro conjI)
  show "dot arcA arcA = 1" by (rule dot_arcA)
  show "dot arcB arcB = 1" by (rule dot_arcB)
  show "map_sum id (\<lambda>arr. dot (data arr ! 1) (data arr ! 1))
        (writeGeodesic (VertexArray 3) arcA arcB 2) = Inr ((43 + 12 * sqrt 3) / 64)"
    by (simp add: writeGeodesic_arc arcInner_norm)
  show "(43 + 12 * sqrt 3) / 64 < (1::real)" by (rule arcInner_norm_less)
qed

text \<open>
  Claim C6 holds of the documented behaviour, not of the code, by the defect of claim C5.
  For radius 1, dimensions (0, 0, 0) and subdivision level 2, vertex 10 of the positions
  has squared magnitude \<open>(43 + 12 * sqrt 3) / 64\<close>, not 1, in exact arithmetic;
  its twelve bytes in the returned positions buffer are those of \<open>arcInner\<close>.
\<close>

theorem sphere_vertex_inside_radius:
  "map_sum id (\<lambda>arr. dot (data arr ! 10) (data arr ! 10))
     (octaspherePositions (jvm False) (Float3 0 0 0) 1 2 120) = Inr ((43 + 12 * sqrt 3) / 64)
   \<and> map_sum id (\<lambda>mesh. take 12 (drop 120 (bytes (positions mesh))))
       (generateOctasphere (jvm False) (Float3 0 0 0) 1 2)
       = Inr (vertexBytes LITTLE_ENDIAN arcInner)
   \<and> (43 + 12 * sqrt 3) / 64 < (1::real) * 1"
proof (intro conjI)
  have two: "(2::nat) \<le> 5" by simp
  have "octaspherePositions (jvm False) (Float3 0 0 0) 1 2 120
      = Inr \<lparr>data = scaledVertices 1 2, index = triangular (2 ^ 2 + 1) * 8\<rparr>"
    using octaspherePositions_eq [OF two, of "jvm False" "Float3 0 0 0" 1] by simp
  then show "map_sum id (\<lambda>arr. dot (data arr ! 10) (data arr ! 10))
     (octaspherePositions (jvm False) (Float3 0 0 0) 1 2 120) = Inr ((43 + 12 * sqrt 3) / 64)"
    by (simp add: scaledVertices_2_10 arcInner_norm)
  have len: "10 < length (scaledVertices 1 2)"
    by (simp add: length_scaledVertices triangular_def)
  have "take 12 (drop (10 * 12) (concat (map (vertexBytes LITTLE_ENDIAN) (scaledVertices 1 2))))
      = vertexBytes LITTLE_ENDIAN (scaledVertices 1 2 ! 10)"
    using len by (intro block_at) simp_all
  then show "map_sum id (\<lambda>mesh. take 12 (drop 120 (bytes (positions mesh))))
       (generateOctasphere (jvm False) (Float3 0 0 0) 1 2)
       = Inr (vertexBytes LITTLE_ENDIAN arcInner)"
    by (simp add: generateOctasphere_eq jvm_def effectiveSubdivisions_def clamp_def
        kOctasphereMaxSubdivisions_def octasphereMesh_def scaledVertices_2_10)
  show "(43 + 12 * sqrt 3) / 64 < (1::real) * 1"
    using arcInner_norm_less by simp
qed

text \<open>
  Claim C7. No input makes the generator divide by zero, degenerate shapes included: the
  divisions of \<^verbatim>\<open>translateCorners\<close> have the divisor 2, the division of
  \<^verbatim>\<open>writeGeodesic\<close> is reached only when \<^verbatim>\<open>numSegments\<close> is not zero, and the
  divisor \<open>verticesPerLine - 1\<close> of \<^verbatim>\<open>generateUnitSphere\<close> is a power of two.
\<close>

theorem no_division_by_zero:
  "generateOctasphere P dimensions radius subdivisions \<noteq> Inl DivisionByZero
   \<and> translateCorners arr dimensions radius level \<noteq> Inl DivisionByZero
   \<and> writeGeodesic arr pointA pointB numSegments \<noteq> Inl DivisionByZero"
  by (auto simp: generateOctasphere_eq translateCorners_eq writeGeodesic_appendAll
      dest: appendAll_fails)

text \<open>
  Claim C8. Where the call returns, the three buffers are sized to the returned counts:
  12 bytes for each vertex in the positions buffer, 16 for each vertex in the tangents
  buffer, 2 for each index in the index buffer, all in the native byte order. Vertex
  \<open>i\<close> occupies bytes \<open>12 * i\<close> to \<open>12 * i + 11\<close> of the positions buffer, as its
  three coordinates in turn, and index \<open>i\<close> occupies bytes \<open>2 * i\<close> and \<open>2 * i + 1\<close>
  of the index buffer.
\<close>

theorem buffer_layout:
  assumes "\<not> assertionsEnabled P"
  shows "\<exists>mesh arr triangles.
      generateOctasphere P dimensions radius subdivisions = Inr mesh
    \<and> octaspherePositions P dimensions radius (effectiveSubdivisions subdivisions)
          (numVertices mesh) = Inr arr
    \<and> generateIndices P (TriangleArray (numIndices mesh div 3))
          (effectiveSubdivisions subdivisions) = Inr triangles
    \<and> length (data arr) = numVertices mesh
    \<and> length (data triangles) = numIndices mesh
    \<and> length (bytes (positions mesh)) = numVertices mesh * kOctaspherePositionSize
    \<and> length (bytes (tangents mesh)) = numVertices mesh * kOctasphereTangentSize
    \<and> length (bytes (indices mesh)) = numIndices mesh * kOctasphereIndexSize
    \<and> byteOrder (positions mesh) = nativeOrder P
    \<and> byteOrder (tangents mesh) = nativeOrder P
    \<and> byteOrder (indices mesh) = nativeOrder P
    \<and> (\<forall>i<numVertices mesh.
          take 12 (drop (i * 12) (bytes (positions mesh)))
            = floatBytes (nativeOrder P) (vx (data arr ! i))
              @ floatBytes (nativeOrder P) (vy (data arr ! i))
              @ floatBytes (nativeOrder P) (vz (data arr ! i)))
    \<and> (\<forall>i<numIndices mesh.
          take 2 (drop (i * 2) (bytes (indices mesh)))
            = shortBytes (nativeOrder P) (toShort (data triangles ! i)))"
proof -
  define d where "d = effectiveSubdivisions subdivisions"
  have d: "d \<le> 5" unfolding d_def by (rule effectiveSubdivisions_le)
  define mesh where "mesh = octasphereMesh P radius d"
  define arr :: VertexArray
    where "arr = \<lparr>data = scaledVertices radius d, index = triangular (2 ^ d + 1) * 8\<rparr>"
  define triangles :: TriangleArray
    where "triangles = \<lparr>data = triangleData d, index = length (octasphereIndices d)\<rparr>"
  have nv: "numVertices mesh = triangular (2 ^ d + 1) * 8"
    and ni: "numIndices mesh = length (octasphereIndices d) + seamSlots d"
    and pb: "bytes (positions mesh) = concat (map (vertexBytes (nativeOrder P)) (data arr))"
    and ib: "bytes (indices mesh)
               = concat (map (\<lambda>i. shortBytes (nativeOrder P) (toShort i)) (data triangles))"
    by (simp_all add: mesh_def octasphereMesh_def arr_def triangles_def)
  have la: "length (data arr) = numVertices mesh"
    by (simp add: arr_def nv length_scaledVertices [OF d])
  have lt: "length (data triangles) = numIndices mesh"
    by (simp add: triangles_def ni length_triangleData)
  have 1: "generateOctasphere P dimensions radius subdivisions = Inr mesh"
    using assms by (simp add: generateOctasphere_eq mesh_def d_def)
  have 2: "octaspherePositions P dimensions radius d (numVertices mesh) = Inr arr"
    unfolding mesh_def arr_def by (rule octaspherePositions_of_mesh [OF d])
  have 3: "generateIndices P (TriangleArray (numIndices mesh div 3)) d = Inr triangles"
    unfolding mesh_def triangles_def by (rule generateIndices_of_mesh [OF assms])
  have 4: "length (bytes (positions mesh)) = numVertices mesh * kOctaspherePositionSize"
    unfolding pb la [symmetric]
    by (simp add: length_concat_const kOctaspherePositionSize_def kFloatSize_def)
  have 5: "length (bytes (tangents mesh)) = numVertices mesh * kOctasphereTangentSize"
    by (simp add: mesh_def octasphereMesh_def kOctasphereTangentSize_def kFloatSize_def)
  have 6: "length (bytes (indices mesh)) = numIndices mesh * kOctasphereIndexSize"
    unfolding ib lt [symmetric]
    by (simp add: length_concat_const kOctasphereIndexSize_def)
  have 7: "byteOrder (positions mesh) = nativeOrder P" "byteOrder (tangents mesh) = nativeOrder P"
    "byteOrder (indices mesh) = nativeOrder P"
    by (simp_all add: mesh_def octasphereMesh_def)
  have 8: "\<forall>i<numVertices mesh.
          take 12 (drop (i * 12) (bytes (positions mesh)))
            = floatBytes (nativeOrder P) (vx (data arr ! i))
              @ floatBytes (nativeOrder P) (vy (data arr ! i))
              @ floatBytes (nativeOrder P) (vz (data arr ! i))"
    unfolding pb la [symmetric]
    by (simp add: block_at [where f = "vertexBytes (nativeOrder P)" and k = 12]
        vertexBytes_def)
  have 9: "\<forall>i<numIndices mesh.
          take 2 (drop (i * 2) (bytes (indices mesh)))
            = shortBytes (nativeOrder P) (toShort (data triangles ! i))"
    unfolding ib lt [symmetric]
    by (simp add: block_at [where f = "\<lambda>i. shortBytes (nativeOrder P) (toShort i)" and k = 2])
  show ?thesis
    using 1 2 3 la lt 4 5 6 7 8 9 unfolding d_def by blast
qed

theorem buffer_layout_witness:
  "\<exists>mesh arr triangles.
      generateOctasphere (jvm False) (Float3 0 0 0) 1 0 = Inr mesh
    \<and> octaspherePositions (jvm False) (Float3 0 0 0) 1 0 (numVertices mesh) = Inr arr
    \<and> generateIndices (jvm False) (TriangleArray (numIndices mesh div 3)) 0 = Inr triangles
    \<and> length (data arr) = numVertices mesh
    \<and> length (data triangles) = numIndices mesh
    \<and> length (bytes (positions mesh)) = numVertices mesh * 12
    \<and> length (bytes (tangents mesh)) = numVertices mesh * 16
    \<and> length (bytes (indices mesh)) = numIndices mesh * 2
    \<and> byteOrder (positions mesh) = LITTLE_ENDIAN
    \<and> byteOrder (tangents mesh) = LITTLE_ENDIAN
    \<and> byteOrder (indices mesh) = LITTLE_ENDIAN
    \<and> (\<forall>i<numVertices mesh.
          take 12 (drop (i * 12) (bytes (positions mesh)))
            = floatBytes LITTLE_ENDIAN (vx (data arr ! i))
              @ floatBytes LITTLE_ENDIAN (vy (data arr ! i))
              @ floatBytes LITTLE_ENDIAN (vz (data arr ! i)))
    \<and> (\<forall>i<numIndices mesh.
          take 2 (drop (i * 2) (bytes (indices mesh)))
            = shortBytes LITTLE_ENDIAN (toShort (data triangles ! i)))"
  using buffer_layout [of "jvm False" "Float3 0 0 0" 1 0]
  by (simp add: jvm_def effectiveSubdivisions_0 kOctaspherePositionSize_def
      kOctasphereTangentSize_def kOctasphereIndexSize_def kFloatSize_def)

text \<open>
  Claim C9 holds of what the assertions state, not of the code. With assertions enabled
  every call fails the assertion of \<^verbatim>\<open>generateIndices\<close> that the index array has been
  filled: the array has room for the seam quads, which are not generated. The other two
  assertions never fail.
\<close>

theorem triangles_assertion_fails:
  "generateOctasphere (P\<lparr>assertionsEnabled := True\<rparr>) dimensions radius subdivisions
     = Inl (AssertionError TrianglesFilled)
   \<and> generateOctasphere P dimensions radius subdivisions \<noteq> Inl (AssertionError PositionsFilled)
   \<and> generateOctasphere P dimensions radius subdivisions \<noteq> Inl (AssertionError IndexFitsShort)"
  by (simp add: generateOctasphere_eq)

text \<open>
  Claim C10. The result of \<^verbatim>\<open>generateOctasphere\<close> does not depend on the dimensions:
  \<^verbatim>\<open>translateCorners\<close> returns the vertex array as it came.
\<close>

theorem dimensions_ignored:
  "generateOctasphere P dimensions radius subdivisions
     = generateOctasphere P dimensions' radius subdivisions
   \<and> translateCorners arr dimensions radius level = Inr arr"
  by (simp add: generateOctasphere_eq translateCorners_eq)

end
